theory Spec2Isabelle
  imports Complex_Main
begin

section \<open>The e-commerce API of server.js\<close>

text \<open>
  The server keeps three process-wide arrays (\<open>users\<close>, \<open>products\<close>, \<open>orders\<close>) and
  answers each HTTP request by one route handler. A handler is a function from the
  state before the request to the JSON response and the state after it.

  \<^item> A field of a JSON body is any JSON value, or \<open>undefined\<close> when it is left out:
    the handlers test fields with \<open>!field\<close> and \<open>===\<close> and never look at their type.
  \<^item> Numbers are IEEE 754 doubles: a finite one is the rational it stands for, and
    every sum, difference and product is rounded to the nearest double, ties to even.
    Minus zero is not kept apart from zero: the code never divides.
  \<^item> Cart lines are objects: \<open>existingItem.quantity += quantity\<close> writes through
    a reference, and \<open>[...user.cart]\<close> copies references, not lines. So the lines live
    in a store, and a cart, and the \<open>items\<close> of an order, are lists of addresses.
  \<^item> A property read on \<open>undefined\<close> (the token names no user) throws a TypeError the
    handler does not catch: the request ends there, before any write.
  \<^item> \<open>register\<close> awaits \<open>bcrypt.hash\<close> between its checks and its write; other
    requests are served in between, so it is two steps.
  \<^item> bcryptjs, jsonwebtoken, \<open>toLowerCase\<close> and the clock are parameters, collected
    in a record. Ids of products, and the names, categories and descriptions of
    products, come from the product table: finite numbers and strings.
  \<^item> A route parameter is given by the value of \<open>parseInt\<close> on it: \<open>None\<close> is NaN,
    which is strictly equal to nothing.
\<close>

subsection \<open>Numbers\<close>

datatype jsnum = NaN | PosInf | NegInf | Fin rat

function bitlen :: "int \<Rightarrow> int" where
  "bitlen n = (if n \<le> 0 then 0 else 1 + bitlen (n div 2))"
  by pat_completeness auto
termination
  by (relation "measure nat") auto

declare bitlen.simps [simp del]

function declen :: "int \<Rightarrow> int" where
  "declen n = (if n \<le> 0 then 0 else 1 + declen (n div 10))"
  by pat_completeness auto
termination
  by (relation "measure nat") auto

declare declen.simps [simp del]

definition pow :: "rat \<Rightarrow> int \<Rightarrow> rat" where
  "pow b e = (if 0 \<le> e then b ^ nat e else 1 / b ^ nat (- e))"

definition ilog2 :: "rat \<Rightarrow> int" where
  "ilog2 a =
     (if 1 \<le> a then bitlen \<lfloor>a\<rfloor> - 1
      else let d = - bitlen \<lfloor>1 / a\<rfloor>
           in if pow 2 (d + 1) \<le> a then d + 1 else d)"

definition ilog10 :: "rat \<Rightarrow> int" where
  "ilog10 a =
     (if 1 \<le> a then declen \<lfloor>a\<rfloor> - 1
      else let d = - declen \<lfloor>1 / a\<rfloor>
           in if pow 10 (d + 1) \<le> a then d + 1 else d)"

definition round_even :: "rat \<Rightarrow> int" where
  "round_even r =
     (let f = \<lfloor>r\<rfloor>; d = r - of_int f
      in if d < 1 / 2 then f else if 1 / 2 < d then f + 1 else if even f then f else f + 1)"

definition rnd :: "rat \<Rightarrow> jsnum" where
  "rnd x =
     (if x = 0 then Fin 0
      else let a = \<bar>x\<bar>;
               e = max (ilog2 a - 52) (- 1074);
               r = of_int (round_even (a / pow 2 e)) * pow 2 e
           in if 1024 \<le> ilog2 r then (if x < 0 then NegInf else PosInf)
              else Fin (if x < 0 then - r else r))"

fun neg :: "jsnum \<Rightarrow> jsnum" where
  "neg NaN = NaN"
| "neg PosInf = NegInf"
| "neg NegInf = PosInf"
| "neg (Fin a) = Fin (- a)"

fun add :: "jsnum \<Rightarrow> jsnum \<Rightarrow> jsnum" where
  "add (Fin a) (Fin b) = rnd (a + b)"
| "add NaN y = NaN"
| "add x NaN = NaN"
| "add PosInf NegInf = NaN"
| "add NegInf PosInf = NaN"
| "add PosInf y = PosInf"
| "add NegInf y = NegInf"
| "add (Fin a) y = y"

definition sub :: "jsnum \<Rightarrow> jsnum \<Rightarrow> jsnum" where
  "sub x y = add x (neg y)"

fun sign :: "jsnum \<Rightarrow> int" where
  "sign NaN = 0"
| "sign PosInf = 1"
| "sign NegInf = - 1"
| "sign (Fin a) = (if a < 0 then - 1 else if a = 0 then 0 else 1)"

fun mul :: "jsnum \<Rightarrow> jsnum \<Rightarrow> jsnum" where
  "mul (Fin a) (Fin b) = rnd (a * b)"
| "mul NaN y = NaN"
| "mul x NaN = NaN"
| "mul x y = (if sign x * sign y = 0 then NaN else if sign x * sign y < 0 then NegInf else PosInf)"

fun lt :: "jsnum \<Rightarrow> jsnum \<Rightarrow> bool" where
  "lt (Fin a) (Fin b) = (a < b)"
| "lt NaN y = False"
| "lt x NaN = False"
| "lt x PosInf = (x \<noteq> PosInf)"
| "lt NegInf y = (y \<noteq> NegInf)"
| "lt x y = False"

text \<open>
  \<open>Number::toString\<close>: the shortest digits \<open>s\<close> (\<open>k\<close> of them) and the exponent \<open>n\<close> such
  that \<open>s * 10^(n - k)\<close> rounds to the number, written as the standard lays them out.
\<close>

definition digit :: "int \<Rightarrow> char" where
  "digit d = char_of (48 + d)"

function digits :: "int \<Rightarrow> string" where
  "digits n = (if n < 10 then [digit n] else digits (n div 10) @ [digit (n mod 10)])"
  by pat_completeness auto
termination
  by (relation "measure nat") auto

declare digits.simps [simp del]

definition candidates :: "rat \<Rightarrow> int \<Rightarrow> (int \<times> int \<times> int) list" where
  "candidates v k =
     (let n = ilog10 v + 1;
          lo = \<lfloor>v / pow 10 (n - k)\<rfloor>;
          c1 = (lo, n, k);
          c2 = (if lo + 1 < 10 ^ nat k then (lo + 1, n, k) else (10 ^ nat (k - 1), n + 1, k));
          val = (\<lambda>(s, n, k). of_int s * pow 10 (n - k));
          ok = (\<lambda>c. rnd (val c) = Fin v);
          d1 = \<bar>val c1 - v\<bar>; d2 = \<bar>val c2 - v\<bar>
      in if ok c1 \<and> ok c2
         then (if d1 < d2 \<or> (d1 = d2 \<and> even lo) then [c1] else [c2])
         else filter ok [c1, c2])"

function shortest_from :: "rat \<Rightarrow> int \<Rightarrow> int \<times> int \<times> int" where
  "shortest_from v k =
     (case candidates v k of
        c # cs \<Rightarrow> c
      | [] \<Rightarrow> if 17 \<le> k then (0, 0, 1) else shortest_from v (k + 1))"
  by pat_completeness auto
termination
  by (relation "measure (\<lambda>(v, k). nat (17 - k))") auto

declare shortest_from.simps [simp del]

definition shortest :: "rat \<Rightarrow> int \<times> int \<times> int" where
  "shortest v = shortest_from v 1"

definition zeros :: "int \<Rightarrow> string" where
  "zeros n = replicate (nat n) CHR ''0''"

definition positive_to_string :: "rat \<Rightarrow> string" where
  "positive_to_string v =
     (case shortest v of (s, n, k) \<Rightarrow>
        let ds = digits s in
        if k \<le> n \<and> n \<le> 21 then ds @ zeros (n - k)
        else if 0 < n \<and> n \<le> 21 then take (nat n) ds @ ''.'' @ drop (nat n) ds
        else if - 6 < n \<and> n \<le> 0 then ''0.'' @ zeros (- n) @ ds
        else (if k = 1 then ds else take 1 ds @ ''.'' @ drop 1 ds) @ ''e'' @
             (if n - 1 < 0 then ''-'' else ''+'') @ digits \<bar>n - 1\<bar>)"

fun num_to_string :: "jsnum \<Rightarrow> string" where
  "num_to_string NaN = ''NaN''"
| "num_to_string PosInf = ''Infinity''"
| "num_to_string NegInf = ''-Infinity''"
| "num_to_string (Fin a) =
     (if a = 0 then ''0'' else if a < 0 then ''-'' @ positive_to_string (- a)
      else positive_to_string a)"

fun toFixed2 :: "jsnum \<Rightarrow> string" where
  "toFixed2 NaN = ''NaN''"
| "toFixed2 PosInf = ''Infinity''"
| "toFixed2 NegInf = ''-Infinity''"
| "toFixed2 (Fin a) =
     (if 10 ^ 21 \<le> \<bar>a\<bar> then num_to_string (Fin a)
      else let n = \<lfloor>\<bar>a\<bar> * 100 + 1 / 2\<rfloor>
           in (if a < 0 then ''-'' else []) @ digits (n div 100) @ ''.'' @
              [digit (n div 10 mod 10), digit (n mod 10)])"

text \<open>
  \<open>parseFloat\<close> reads the longest decimal literal at the start of a string;
  \<open>StringToNumber\<close> wants the whole string, trimmed, to be a literal, and knows the
  prefixes \<open>0x\<close>, \<open>0o\<close> and \<open>0b\<close>. White space is the ASCII one here.
\<close>

definition is_digit :: "char \<Rightarrow> bool" where
  "is_digit c = (48 \<le> (of_char c :: int) \<and> (of_char c :: int) \<le> 57)"

definition is_space :: "char \<Rightarrow> bool" where
  "is_space c = ((of_char c :: int) \<in> {32, 9, 10, 11, 12, 13})"

definition number_of :: "int \<Rightarrow> string \<Rightarrow> int" where
  "number_of base ds = foldl (\<lambda>n c. base * n + (of_char c - 48)) 0 ds"

definition scan_exponent :: "string \<Rightarrow> int \<times> string" where
  "scan_exponent cs =
     (case cs of
        e # rest \<Rightarrow>
          if e = CHR ''e'' \<or> e = CHR ''E''
          then let neg = (take 1 rest = ''-'');
                   body = (if take 1 rest = ''-'' \<or> take 1 rest = ''+'' then drop 1 rest else rest);
                   ds = takeWhile is_digit body
               in if ds = [] then (0, cs)
                  else ((if neg then - 1 else 1) * number_of 10 ds, dropWhile is_digit body)
          else (0, cs)
      | [] \<Rightarrow> (0, cs))"

definition scan_decimal :: "string \<Rightarrow> (jsnum \<times> string) option" where
  "scan_decimal cs =
     (let neg = (take 1 cs = ''-'');
          body = (if take 1 cs = ''-'' \<or> take 1 cs = ''+'' then drop 1 cs else cs)
      in if take 8 body = ''Infinity'' then Some (if neg then NegInf else PosInf, drop 8 body)
         else
           let d1 = takeWhile is_digit body;
               r1 = dropWhile is_digit body;
               d2 = (if take 1 r1 = ''.'' then takeWhile is_digit (drop 1 r1) else []);
               r2 = (if take 1 r1 = ''.'' then dropWhile is_digit (drop 1 r1) else r1)
           in if d1 = [] \<and> d2 = [] then None
              else case scan_exponent r2 of (e, r3) \<Rightarrow>
                let m = of_int (number_of 10 d1) + of_int (number_of 10 d2) / 10 ^ length d2
                in Some (rnd ((if neg then - 1 else 1) * m * pow 10 e), r3))"

definition parseFloat :: "string \<Rightarrow> jsnum" where
  "parseFloat cs =
     (case scan_decimal (dropWhile is_space cs) of None \<Rightarrow> NaN | Some (n, rest) \<Rightarrow> n)"

definition hex_value :: "char \<Rightarrow> int option" where
  "hex_value c =
     (let n = (of_char c :: int)
      in if 48 \<le> n \<and> n \<le> 57 then Some (n - 48)
         else if 97 \<le> n \<and> n \<le> 102 then Some (n - 87)
         else if 65 \<le> n \<and> n \<le> 70 then Some (n - 55)
         else None)"

definition scan_radix :: "int \<Rightarrow> string \<Rightarrow> jsnum" where
  "scan_radix base ds =
     (if ds \<noteq> [] \<and> list_all (\<lambda>c. case hex_value c of None \<Rightarrow> False | Some d \<Rightarrow> d < base) ds
      then rnd (of_int (foldl (\<lambda>n c. base * n + (case hex_value c of None \<Rightarrow> 0 | Some d \<Rightarrow> d)) 0 ds))
      else NaN)"

definition string_to_num :: "string \<Rightarrow> jsnum" where
  "string_to_num cs =
     (let t = rev (dropWhile is_space (rev (dropWhile is_space cs)))
      in if t = [] then Fin 0
         else if take 2 t = ''0x'' \<or> take 2 t = ''0X'' then scan_radix 16 (drop 2 t)
         else if take 2 t = ''0o'' \<or> take 2 t = ''0O'' then scan_radix 8 (drop 2 t)
         else if take 2 t = ''0b'' \<or> take 2 t = ''0B'' then scan_radix 2 (drop 2 t)
         else case scan_decimal t of
                Some (n, []) \<Rightarrow> n
              | _ \<Rightarrow> NaN)"

subsection \<open>Values\<close>

text \<open>
  What \<open>JSON.parse\<close> makes, and \<open>undefined\<close>. An array or an object is given by the
  string that \<open>ToPrimitive\<close> makes of it (\<open>[1,2]\<close> is \<open>''1,2''\<close>, an object is
  \<open>''[object Object]''\<close>); each is a fresh object, strictly equal to nothing else.
\<close>

datatype jsval = Undefined | Null | Bool bool | Num jsnum | Str string | Obj string

fun truthy :: "jsval \<Rightarrow> bool" where
  "truthy Undefined = False"
| "truthy Null = False"
| "truthy (Bool b) = b"
| "truthy (Num n) = (n \<noteq> NaN \<and> n \<noteq> Fin 0)"
| "truthy (Str s) = (s \<noteq> [])"
| "truthy (Obj s) = True"

fun strict_eq :: "jsval \<Rightarrow> jsval \<Rightarrow> bool" where
  "strict_eq (Obj s) y = False"
| "strict_eq (Num NaN) y = False"
| "strict_eq x y = (x = y)"

fun to_number :: "jsval \<Rightarrow> jsnum" where
  "to_number Undefined = NaN"
| "to_number Null = Fin 0"
| "to_number (Bool b) = Fin (if b then 1 else 0)"
| "to_number (Num n) = n"
| "to_number (Str s) = string_to_num s"
| "to_number (Obj s) = string_to_num s"

fun to_string :: "jsval \<Rightarrow> string" where
  "to_string Undefined = ''undefined''"
| "to_string Null = ''null''"
| "to_string (Bool b) = (if b then ''true'' else ''false'')"
| "to_string (Num n) = num_to_string n"
| "to_string (Str s) = s"
| "to_string (Obj s) = s"

fun stringish :: "jsval \<Rightarrow> bool" where
  "stringish (Str s) = True"
| "stringish (Obj s) = True"
| "stringish v = False"

text \<open>\<open>x + y\<close>: concatenation if either side is a string once primitive, else the sum.\<close>

definition js_add :: "jsval \<Rightarrow> jsval \<Rightarrow> jsval" where
  "js_add x y =
     (if stringish x \<or> stringish y then Str (to_string x @ to_string y)
      else Num (add (to_number x) (to_number y)))"

subsection \<open>Data\<close>

type_synonym addr = nat

record cart_item =
  ci_productId :: rat
  ci_name :: string
  ci_price :: jsnum
  ci_quantity :: jsval

record user =
  u_id :: nat
  u_username :: jsval
  u_email :: jsval
  u_password :: string
  u_cart :: "addr list"
  u_createdAt :: nat

record product =
  p_id :: rat
  p_name :: string
  p_category :: string
  p_description :: string
  p_price :: jsnum
  p_stock :: jsnum

record order =
  o_id :: nat
  o_userId :: nat
  o_username :: jsval
  o_items :: "addr list"
  o_total :: jsnum
  o_status :: string
  o_createdAt :: nat

record state =
  users :: "user list"
  products :: "product list"
  orders :: "order list"
  store :: "cart_item list"

record runtime =
  bcrypt_hash :: "jsval \<Rightarrow> string option"
  bcrypt_compare :: "jsval \<Rightarrow> string \<Rightarrow> bool option"
  jwt_sign :: "nat \<Rightarrow> jsval \<Rightarrow> string option"
  toLowerCase :: "string \<Rightarrow> string"
  now :: nat

text \<open>
  \<open>bcrypt_hash\<close>, \<open>bcrypt_compare\<close> and \<open>jwt_sign\<close> return \<open>None\<close> when the
  library call throws; the handlers of register and login catch that and answer 500.
\<close>

datatype exn = TypeError

datatype payload =
    NoData
  | EndpointMap
  | PublicUser nat jsval jsval
  | TokenUser string nat jsval jsval
  | ProductList nat "product list"
  | ProductData product
  | CartView nat string "cart_item list"
  | CartData "cart_item list"
  | OrderData order "cart_item list"
  | OrderList nat "(order \<times> cart_item list) list"

record response =
  status :: nat
  success :: "bool option"
  message :: "string option"
  payload :: payload

type_synonym result = "exn + response \<times> state"

definition fail :: "nat \<Rightarrow> string \<Rightarrow> response" where
  "fail code msg = \<lparr>status = code, success = Some False, message = Some msg, payload = NoData\<rparr>"

definition ok :: "nat \<Rightarrow> string option \<Rightarrow> payload \<Rightarrow> response" where
  "ok code msg d = \<lparr>status = code, success = Some True, message = msg, payload = d\<rparr>"

text \<open>Two messages carry an emoji; strings are bytes here, so it is written in UTF-8.\<close>

definition cart_emoji :: string where
  "cart_emoji = [CHR 0xF0, CHR 0x9F, CHR 0x9B, CHR 0x92]"

definition party_emoji :: string where
  "party_emoji = [CHR 0xF0, CHR 0x9F, CHR 0x8E, CHR 0x89]"

subsection \<open>Arrays of objects\<close>

text \<open>
  \<open>const x = xs.find(P); x.field = v\<close> writes to the first element that satisfies
  \<open>P\<close>, in place.
\<close>

fun update_first :: "('a \<Rightarrow> bool) \<Rightarrow> ('a \<Rightarrow> 'a) \<Rightarrow> 'a list \<Rightarrow> 'a list" where
  "update_first P f [] = []"
| "update_first P f (x # xs) = (if P x then f x # xs else x # update_first P f xs)"

definition deref :: "state \<Rightarrow> addr \<Rightarrow> cart_item" where
  "deref s a = store s ! a"

definition cart_view :: "state \<Rightarrow> addr list \<Rightarrow> cart_item list" where
  "cart_view s as = map (deref s) as"

definition find_user :: "state \<Rightarrow> nat \<Rightarrow> user option" where
  "find_user s uid = find (\<lambda>u. u_id u = uid) (users s)"

definition set_cart :: "nat \<Rightarrow> addr list \<Rightarrow> user list \<Rightarrow> user list" where
  "set_cart uid c us = update_first (\<lambda>u. u_id u = uid) (\<lambda>u. u\<lparr>u_cart := c\<rparr>) us"

text \<open>\<open>cart.reduce((sum, item) => sum + (item.price * item.quantity), 0)\<close>\<close>

definition cartTotal :: "cart_item list \<Rightarrow> jsnum" where
  "cartTotal items =
     foldl (\<lambda>sum item. add sum (mul (ci_price item) (to_number (ci_quantity item)))) (Fin 0) items"

text \<open>\<open>x === parseInt(param)\<close> for a finite number \<open>x\<close>.\<close>

fun eq_param :: "rat \<Rightarrow> int option \<Rightarrow> bool" where
  "eq_param x None = False"
| "eq_param x (Some n) = (x = of_int n)"

subsection \<open>Registration and login\<close>

text \<open>
  \<open>register\<close> up to \<open>await bcrypt.hash(password, 10)\<close>: an answer, or \<open>None\<close> when
  the handler goes on to hash.
\<close>

definition register_check :: "jsval \<Rightarrow> jsval \<Rightarrow> jsval \<Rightarrow> state \<Rightarrow> response option" where
  "register_check username email password s =
     (if \<not> truthy username \<or> \<not> truthy email \<or> \<not> truthy password
      then Some (fail 400 ''Please provide username, email, and password'')
      else case find (\<lambda>u. strict_eq (u_email u) email) (users s) of
        Some existingUser \<Rightarrow> Some (fail 400 ''Email already registered'')
      | None \<Rightarrow> None)"

text \<open>\<open>register\<close> from the moment the hash is there, or the hashing has thrown.\<close>

definition register_commit :: "runtime \<Rightarrow> jsval \<Rightarrow> jsval \<Rightarrow> jsval \<Rightarrow> state \<Rightarrow> response \<times> state" where
  "register_commit rt username email password s =
     (case bcrypt_hash rt password of
        None \<Rightarrow> (fail 500 ''Server error'', s)
      | Some hashedPassword \<Rightarrow>
          let newUser = \<lparr>u_id = length (users s) + 1, u_username = username,
                         u_email = email, u_password = hashedPassword,
                         u_cart = [], u_createdAt = now rt\<rparr>
          in (ok 201 (Some ''Registration successful! You can now login'')
                (PublicUser (u_id newUser) (u_username newUser) (u_email newUser)),
              s\<lparr>users := users s @ [newUser]\<rparr>))"

text \<open>A registration that no other request overlaps.\<close>

definition register :: "runtime \<Rightarrow> jsval \<Rightarrow> jsval \<Rightarrow> jsval \<Rightarrow> state \<Rightarrow> result" where
  "register rt username email password s =
     (case register_check username email password s of
        Some resp \<Rightarrow> Inr (resp, s)
      | None \<Rightarrow> Inr (register_commit rt username email password s))"

definition login :: "runtime \<Rightarrow> jsval \<Rightarrow> jsval \<Rightarrow> state \<Rightarrow> result" where
  "login rt email password s =
     (if \<not> truthy email \<or> \<not> truthy password
      then Inr (fail 400 ''Please provide email and password'', s)
      else case find (\<lambda>u. strict_eq (u_email u) email) (users s) of
        None \<Rightarrow> Inr (fail 400 ''Invalid email or password'', s)
      | Some user \<Rightarrow>
         (case bcrypt_compare rt password (u_password user) of
            None \<Rightarrow> Inr (fail 500 ''Server error'', s)
          | Some validPassword \<Rightarrow>
              if \<not> validPassword then Inr (fail 400 ''Invalid email or password'', s)
              else (case jwt_sign rt (u_id user) (u_email user) of
                 None \<Rightarrow> Inr (fail 500 ''Server error'', s)
               | Some token \<Rightarrow>
                   Inr (ok 200 (Some ''Login successful!'')
                          (TokenUser token (u_id user) (u_username user) (u_email user)), s))))"

subsection \<open>Products\<close>

definition listProducts :: "state \<Rightarrow> result" where
  "listProducts s = Inr (ok 200 None (ProductList (length (products s)) (products s)), s)"

definition getProduct :: "int option \<Rightarrow> state \<Rightarrow> result" where
  "getProduct param s =
     (case find (\<lambda>p. eq_param (p_id p) param) (products s) of
        None \<Rightarrow> Inr (fail 404 ''Product not found'', s)
      | Some product \<Rightarrow> Inr (ok 200 None (ProductData product), s))"

text \<open>\<open>s.includes(q)\<close>: \<open>q\<close> occurs in \<open>s\<close> as a contiguous run.\<close>

fun includes_str :: "string \<Rightarrow> string \<Rightarrow> bool" where
  "includes_str [] q = (q = [])"
| "includes_str (c # cs) q = (take (length q) (c # cs) = q \<or> includes_str cs q)"

definition searchProducts :: "runtime \<Rightarrow> string \<Rightarrow> state \<Rightarrow> result" where
  "searchProducts rt param s =
     (let query = toLowerCase rt param;
          results = filter (\<lambda>p. includes_str (toLowerCase rt (p_name p)) query
                               \<or> includes_str (toLowerCase rt (p_category p)) query
                               \<or> includes_str (toLowerCase rt (p_description p)) query) (products s)
      in Inr (ok 200 None (ProductList (length results) results), s))"

subsection \<open>Cart\<close>

definition getCart :: "nat \<Rightarrow> state \<Rightarrow> result" where
  "getCart uid s =
     (case find_user s uid of
        None \<Rightarrow> Inl TypeError
      | Some user \<Rightarrow>
          Inr (ok 200 None
                 (CartView (length (u_cart user))
                    (toFixed2 (cartTotal (cart_view s (u_cart user))))
                    (cart_view s (u_cart user))), s))"

text \<open>
  \<open>p.id === productId\<close> holds when \<open>productId\<close> is the number that \<open>p.id\<close> is, so
  the line pushed for \<open>product\<close> has \<open>product.id\<close> as its \<open>productId\<close>.
\<close>

definition addToCart :: "nat \<Rightarrow> jsval \<Rightarrow> jsval \<Rightarrow> state \<Rightarrow> result" where
  "addToCart uid productId quantity s =
     (if \<not> truthy productId \<or> \<not> truthy quantity
      then Inr (fail 400 ''Please provide productId and quantity'', s)
      else case find (\<lambda>p. Num (Fin (p_id p)) = productId) (products s) of
        None \<Rightarrow> Inr (fail 404 ''Product not found'', s)
      | Some product \<Rightarrow>
          if lt (p_stock product) (to_number quantity)
          then Inr (fail 400 (''Only '' @ num_to_string (p_stock product) @ '' items in stock''), s)
          else (case find_user s uid of
             None \<Rightarrow> Inl TypeError
           | Some user \<Rightarrow>
              (case find (\<lambda>a. Num (Fin (ci_productId (deref s a))) = productId) (u_cart user) of
                 Some a \<Rightarrow>
                   let existingItem = deref s a;
                       s' = s\<lparr>store := (store s)
                              [a := existingItem\<lparr>ci_quantity := js_add (ci_quantity existingItem) quantity\<rparr>]\<rparr>
                   in Inr (ok 200 (Some (p_name product @ '' added to cart''))
                             (CartData (cart_view s' (u_cart user))), s')
               | None \<Rightarrow>
                   let a = length (store s);
                       cart = u_cart user @ [a];
                       s' = s\<lparr>store := store s @
                                [\<lparr>ci_productId = p_id product, ci_name = p_name product,
                                  ci_price = p_price product, ci_quantity = quantity\<rparr>],
                              users := set_cart uid cart (users s)\<rparr>
                   in Inr (ok 200 (Some (p_name product @ '' added to cart''))
                             (CartData (cart_view s' cart)), s'))))"

definition updateCartItem :: "nat \<Rightarrow> int option \<Rightarrow> jsval \<Rightarrow> state \<Rightarrow> result" where
  "updateCartItem uid productId quantity s =
     (case find_user s uid of
        None \<Rightarrow> Inl TypeError
      | Some user \<Rightarrow>
         (case find (\<lambda>a. eq_param (ci_productId (deref s a)) productId) (u_cart user) of
            None \<Rightarrow> Inr (fail 404 ''Item not in cart'', s)
          | Some a \<Rightarrow>
              if quantity = Num (Fin 0)
              then let cart = filter (\<lambda>a. \<not> eq_param (ci_productId (deref s a)) productId) (u_cart user);
                       s' = s\<lparr>users := set_cart uid cart (users s)\<rparr>
                   in Inr (ok 200 (Some ''Item removed from cart'') (CartData (cart_view s' cart)), s')
              else let s' = s\<lparr>store := (store s)[a := (deref s a)\<lparr>ci_quantity := quantity\<rparr>]\<rparr>
                   in Inr (ok 200 (Some ''Cart updated'') (CartData (cart_view s' (u_cart user))), s')))"

definition removeCartItem :: "nat \<Rightarrow> int option \<Rightarrow> state \<Rightarrow> result" where
  "removeCartItem uid productId s =
     (case find_user s uid of
        None \<Rightarrow> Inl TypeError
      | Some user \<Rightarrow>
         (case find (\<lambda>a. eq_param (ci_productId (deref s a)) productId) (u_cart user) of
            None \<Rightarrow> Inr (fail 404 ''Item not in cart'', s)
          | Some itemExists \<Rightarrow>
              let cart = filter (\<lambda>a. \<not> eq_param (ci_productId (deref s a)) productId) (u_cart user);
                  s' = s\<lparr>users := set_cart uid cart (users s)\<rparr>
              in Inr (ok 200 (Some ''Item removed from cart'') (CartData (cart_view s' cart)), s')))"

definition clearCart :: "nat \<Rightarrow> state \<Rightarrow> result" where
  "clearCart uid s =
     (case find_user s uid of
        None \<Rightarrow> Inl TypeError
      | Some user \<Rightarrow> Inr (ok 200 (Some ''Cart cleared'') NoData, s\<lparr>users := set_cart uid [] (users s)\<rparr>))"

subsection \<open>Orders\<close>

text \<open>
  One step of \<open>user.cart.forEach\<close> in the checkout: the first product with the line's
  \<open>productId\<close>, if there is one, loses the line's quantity.
\<close>

definition take_stock :: "product list \<Rightarrow> cart_item \<Rightarrow> product list" where
  "take_stock ps cartItem =
     update_first (\<lambda>p. p_id p = ci_productId cartItem)
       (\<lambda>p. p\<lparr>p_stock := sub (p_stock p) (to_number (ci_quantity cartItem))\<rparr>) ps"

definition createOrder :: "runtime \<Rightarrow> nat \<Rightarrow> state \<Rightarrow> result" where
  "createOrder rt uid s =
     (case find_user s uid of
        None \<Rightarrow> Inl TypeError
      | Some user \<Rightarrow>
          if length (u_cart user) = 0 then Inr (fail 400 ''Your cart is empty'', s)
          else
            let total = cartTotal (cart_view s (u_cart user));
                newOrder = \<lparr>o_id = length (orders s) + 1, o_userId = u_id user,
                            o_username = u_username user, o_items = u_cart user,
                            o_total = parseFloat (toFixed2 total),
                            o_status = ''pending'', o_createdAt = now rt\<rparr>;
                s' = s\<lparr>orders := orders s @ [newOrder],
                       products := foldl take_stock (products s) (cart_view s (u_cart user)),
                       users := set_cart uid [] (users s)\<rparr>
            in Inr (ok 201 (Some (''Order placed successfully! '' @ party_emoji))
                      (OrderData newOrder (cart_view s' (o_items newOrder))), s'))"

definition listOrders :: "nat \<Rightarrow> state \<Rightarrow> result" where
  "listOrders uid s =
     (let userOrders = filter (\<lambda>ord. o_userId ord = uid) (orders s)
      in Inr (ok 200 None
                (OrderList (length userOrders)
                   (map (\<lambda>ord. (ord, cart_view s (o_items ord))) userOrders)), s))"

definition getOrder :: "nat \<Rightarrow> int option \<Rightarrow> state \<Rightarrow> result" where
  "getOrder uid param s =
     (case find (\<lambda>ord. Some (int (o_id ord)) = param \<and> o_userId ord = uid) (orders s) of
        None \<Rightarrow> Inr (fail 404 ''Order not found'', s)
      | Some ord \<Rightarrow> Inr (ok 200 None (OrderData ord (cart_view s (o_items ord))), s))"

subsection \<open>Requests\<close>

text \<open>
  The steps the server takes. Every handler but that of register runs from its
  first line to its answer without writing after an \<open>await\<close>, so a request is one
  step. \<open>Register\<close> is a registration that no request overlaps; \<open>RegisterHashed\<close>
  is the second half of one that passed its checks earlier and has waited for its
  hash while other requests were served.
\<close>

datatype request =
    Welcome
  | Register jsval jsval jsval
  | RegisterHashed jsval jsval jsval
  | Login jsval jsval
  | ListProducts
  | GetProduct "int option"
  | SearchProducts string
  | GetCart nat
  | AddToCart nat jsval jsval
  | UpdateCartItem nat "int option" jsval
  | RemoveCartItem nat "int option"
  | ClearCart nat
  | CreateOrder nat
  | ListOrders nat
  | GetOrder nat "int option"

fun handle :: "runtime \<Rightarrow> request \<Rightarrow> state \<Rightarrow> result" where
  "handle rt Welcome s =
     Inr (\<lparr>status = 200, success = None,
           message = Some (cart_emoji @ '' Welcome to E-commerce API!''), payload = EndpointMap\<rparr>, s)"
| "handle rt (Register username email password) s = register rt username email password s"
| "handle rt (RegisterHashed username email password) s =
     Inr (register_commit rt username email password s)"
| "handle rt (Login email password) s = login rt email password s"
| "handle rt ListProducts s = listProducts s"
| "handle rt (GetProduct param) s = getProduct param s"
| "handle rt (SearchProducts query) s = searchProducts rt query s"
| "handle rt (GetCart uid) s = getCart uid s"
| "handle rt (AddToCart uid productId quantity) s = addToCart uid productId quantity s"
| "handle rt (UpdateCartItem uid productId quantity) s = updateCartItem uid productId quantity s"
| "handle rt (RemoveCartItem uid productId) s = removeCartItem uid productId s"
| "handle rt (ClearCart uid) s = clearCart uid s"
| "handle rt (CreateOrder uid) s = createOrder rt uid s"
| "handle rt (ListOrders uid) s = listOrders uid s"
| "handle rt (GetOrder uid param) s = getOrder uid param s"

text \<open>The state after a request: an uncaught exception leaves it as it was.\<close>

definition after :: "runtime \<Rightarrow> request \<Rightarrow> state \<Rightarrow> state" where
  "after rt r s = (case handle rt r s of Inl e \<Rightarrow> s | Inr (resp, s') \<Rightarrow> s')"

text \<open>
  A sequence of steps, in the order the server takes them. Each comes with the
  runtime of its moment: the clock moves, and bcrypt salts its hashes at random.
\<close>

fun run :: "(runtime \<times> request) list \<Rightarrow> state \<Rightarrow> state" where
  "run [] s = s"
| "run ((rt, r) # rs) s = run rs (after rt r s)"

subsection \<open>Cart lines are not shared\<close>

text \<open>
  Every cart line is made by one \<open>push\<close> of a fresh object literal onto one cart.
  So no line is in two carts or twice in one, no line of a cart is in an order, and
  every address in use is allocated. The handlers keep it so.
\<close>

definition cart_addrs :: "state \<Rightarrow> addr list" where
  "cart_addrs s = concat (map u_cart (users s))"

definition order_addrs :: "state \<Rightarrow> addr list" where
  "order_addrs s = concat (map o_items (orders s))"

definition unshared :: "state \<Rightarrow> bool" where
  "unshared s \<longleftrightarrow>
     distinct (cart_addrs s) \<and>
     list_all (\<lambda>a. a < length (store s) \<and> a \<notin> set (order_addrs s)) (cart_addrs s) \<and>
     list_all (\<lambda>a. a < length (store s)) (order_addrs s)"

subsection \<open>The writes a request makes\<close>

text \<open>
  A request that answers leaves the state as it was or makes one of five writes: a new
  user joins; a field of a line of the user's cart is written; a new line is pushed
  on the user's cart; the user's cart is replaced by some of its lines; the user's
  cart becomes an order.
\<close>

definition joined :: "state \<Rightarrow> state \<Rightarrow> bool" where
  "joined s s' \<longleftrightarrow> (\<exists>nu. u_cart nu = [] \<and> s' = s\<lparr>users := users s @ [nu]\<rparr>)"

definition wrote :: "state \<Rightarrow> state \<Rightarrow> bool" where
  "wrote s s' \<longleftrightarrow>
     (\<exists>uid u a v. find_user s uid = Some u \<and> a \<in> set (u_cart u) \<and>
        s' = s\<lparr>store := (store s)[a := v]\<rparr>)"

definition pushed :: "state \<Rightarrow> state \<Rightarrow> bool" where
  "pushed s s' \<longleftrightarrow>
     (\<exists>uid u v. find_user s uid = Some u \<and>
        s' = s\<lparr>store := store s @ [v],
               users := set_cart uid (u_cart u @ [length (store s)]) (users s)\<rparr>)"

definition dropped :: "state \<Rightarrow> state \<Rightarrow> bool" where
  "dropped s s' \<longleftrightarrow>
     (\<exists>uid u Q. find_user s uid = Some u \<and>
        s' = s\<lparr>users := set_cart uid (filter Q (u_cart u)) (users s)\<rparr>)"

definition checked_out :: "state \<Rightarrow> state \<Rightarrow> bool" where
  "checked_out s s' \<longleftrightarrow>
     (\<exists>uid u ord ps. find_user s uid = Some u \<and> o_items ord = u_cart u \<and>
        s' = s\<lparr>orders := orders s @ [ord], products := ps,
               users := set_cart uid [] (users s)\<rparr>)"

text \<open>The writes that a cart request of the user \<open>uid\<close> makes.\<close>

definition cart_write :: "nat \<Rightarrow> state \<Rightarrow> state \<Rightarrow> bool" where
  "cart_write uid s s' \<longleftrightarrow>
     (\<exists>u. find_user s uid = Some u \<and>
        ((\<exists>a v. a \<in> set (u_cart u) \<and> s' = s\<lparr>store := (store s)[a := v]\<rparr>) \<or>
         (\<exists>v. s' = s\<lparr>store := store s @ [v],
                      users := set_cart uid (u_cart u @ [length (store s)]) (users s)\<rparr>) \<or>
         (\<exists>c. s' = s\<lparr>users := set_cart uid c (users s)\<rparr>)))"

subsection \<open>Words of the claims\<close>

text \<open>The cart requests of a user: the five routes under \<open>/api/cart\<close>.\<close>

fun cart_request :: "nat \<Rightarrow> request \<Rightarrow> bool" where
  "cart_request uid (GetCart u) = (u = uid)"
| "cart_request uid (AddToCart u productId quantity) = (u = uid)"
| "cart_request uid (UpdateCartItem u productId quantity) = (u = uid)"
| "cart_request uid (RemoveCartItem u productId) = (u = uid)"
| "cart_request uid (ClearCart u) = (u = uid)"
| "cart_request uid r = False"

subsection \<open>An example shop\<close>

text \<open>
  A runtime for the examples. As bcryptjs does, it refuses to hash or compare what is
  not a string; its \<open>toLowerCase\<close> is the ASCII one.
\<close>

definition lower :: "char \<Rightarrow> char" where
  "lower c = (if 65 \<le> (of_char c :: nat) \<and> (of_char c :: nat) \<le> 90
              then char_of (of_char c + (32 :: nat)) else c)"

definition rt0 :: runtime where
  "rt0 = \<lparr>bcrypt_hash = (\<lambda>pw. case pw of Str p \<Rightarrow> Some (''$2a$10$'' @ p) | _ \<Rightarrow> None),
          bcrypt_compare = (\<lambda>pw h. case pw of Str p \<Rightarrow> Some (h = ''$2a$10$'' @ p) | _ \<Rightarrow> None),
          jwt_sign = (\<lambda>uid email. Some (''jwt:'' @ to_string email)),
          toLowerCase = map lower,
          now = 1700000000\<rparr>"

definition laptop :: product where
  "laptop = \<lparr>p_id = 1, p_name = ''Laptop'', p_category = ''Electronics'',
             p_description = ''A laptop'', p_price = Fin 1000, p_stock = Fin 5\<rparr>"

definition mouse :: product where
  "mouse = \<lparr>p_id = 2, p_name = ''Mouse'', p_category = ''Electronics'',
            p_description = ''A mouse'', p_price = Fin 25, p_stock = Fin 10\<rparr>"

definition alice :: user where
  "alice = \<lparr>u_id = 1, u_username = Str ''alice'', u_email = Str ''alice@x.com'',
            u_password = ''$2a$10$pw123456'', u_cart = [0], u_createdAt = 1600000000\<rparr>"

definition bob :: user where
  "bob = \<lparr>u_id = 2, u_username = Str ''bob'', u_email = Str ''bob@x.com'',
          u_password = ''$2a$10$hunter22'', u_cart = [], u_createdAt = 1600000001\<rparr>"

definition bobs_order :: order where
  "bobs_order = \<lparr>o_id = 1, o_userId = 2, o_username = Str ''bob'', o_items = [1],
                 o_total = Fin 50, o_status = ''pending'', o_createdAt = 1600000002\<rparr>"

definition two_laptops :: cart_item where
  "two_laptops = \<lparr>ci_productId = 1, ci_name = ''Laptop'', ci_price = Fin 1000,
                  ci_quantity = Num (Fin 2)\<rparr>"

definition two_mice :: cart_item where
  "two_mice = \<lparr>ci_productId = 2, ci_name = ''Mouse'', ci_price = Fin 25,
               ci_quantity = Num (Fin 2)\<rparr>"

text \<open>Alice has two laptops in her cart; Bob has ordered two mice.\<close>

definition shop :: state where
  "shop = \<lparr>users = [alice, bob], products = [laptop, mouse], orders = [bobs_order],
           store = [two_laptops, two_mice]\<rparr>"

text \<open>
  Two people who register with one email, and the shop after the first and after
  both have been added.
\<close>

definition carol :: user where
  "carol = \<lparr>u_id = 3, u_username = Str ''carol'', u_email = Str ''carol@x.com'',
            u_password = ''$2a$10$pw1'', u_cart = [], u_createdAt = 1700000000\<rparr>"

definition carla :: user where
  "carla = \<lparr>u_id = 4, u_username = Str ''carla'', u_email = Str ''carol@x.com'',
            u_password = ''$2a$10$pw2'', u_cart = [], u_createdAt = 1700000000\<rparr>"

definition shop_carol :: state where
  "shop_carol = shop\<lparr>users := [alice, bob, carol]\<rparr>"

definition shop_carol_carla :: state where
  "shop_carol_carla = shop\<lparr>users := [alice, bob, carol, carla]\<rparr>"

text \<open>
  The shop after \<open>PUT /api/cart/1\<close> with the body \<open>{}\<close>: the quantity of Alice's line
  is \<open>undefined\<close>.
\<close>

definition no_quantity :: cart_item where
  "no_quantity = two_laptops\<lparr>ci_quantity := Undefined\<rparr>"

definition shop_no_quantity :: state where
  "shop_no_quantity = shop\<lparr>store := [no_quantity, two_mice]\<rparr>"

text \<open>Alice's order, and the shop after her checkout.\<close>

definition alices_order :: order where
  "alices_order = \<lparr>o_id = 2, o_userId = 1, o_username = Str ''alice'', o_items = [0],
                   o_total = Fin 2000, o_status = ''pending'', o_createdAt = 1700000000\<rparr>"

definition shop_checked_out :: state where
  "shop_checked_out =
     \<lparr>users = [alice\<lparr>u_cart := []\<rparr>, bob],
      products = [laptop\<lparr>p_stock := Fin 3\<rparr>, mouse],
      orders = [bobs_order, alices_order],
      store = [two_laptops, two_mice]\<rparr>"


text \<open>
  Alice's checkout with that line: the order she gets, and the shop after it.
\<close>

definition nan_order :: order where
  "nan_order = alices_order\<lparr>o_total := NaN\<rparr>"

definition shop_nan :: state where
  "shop_nan =
     \<lparr>users = [alice\<lparr>u_cart := []\<rparr>, bob],
      products = [laptop\<lparr>p_stock := NaN\<rparr>, mouse],
      orders = [bobs_order, nan_order],
      store = [no_quantity, two_mice]\<rparr>"

text \<open>
  The shop after \<open>PUT /api/cart/1\<close> with the body \<open>{"quantity": 1e22}\<close>; \<open>1e22\<close> is a
  double.
\<close>

definition many_laptops :: cart_item where
  "many_laptops = two_laptops\<lparr>ci_quantity := Num (Fin (10 ^ 22))\<rparr>"

definition shop_many :: state where
  "shop_many = shop\<lparr>store := [many_laptops, two_mice]\<rparr>"

section \<open>Lemmas\<close>

subsection \<open>Finding and updating the first match\<close>

lemma length_update_first [simp]: "length (update_first P f xs) = length xs"
  by (induction xs) auto

lemma find_split:
  "find P xs = Some x \<Longrightarrow>
     \<exists>pre post. xs = pre @ x # post \<and> (\<forall>y\<in>set pre. \<not> P y) \<and> P x"
proof (induction xs)
  case Nil
  then show ?case by simp
next
  case (Cons y ys)
  show ?case
  proof (cases "P y")
    case True
    with Cons.prems have "x = y" by simp
    with True show ?thesis by (intro exI[of _ "[]"] exI[of _ ys]) simp
  next
    case False
    with Cons obtain pre post where "ys = pre @ x # post" "\<forall>z\<in>set pre. \<not> P z" "P x"
      by auto
    with False show ?thesis by (intro exI[of _ "y # pre"] exI[of _ post]) simp
  qed
qed

lemma update_first_append:
  "\<forall>y\<in>set pre. \<not> P y \<Longrightarrow> P x \<Longrightarrow> update_first P f (pre @ x # post) = pre @ f x # post"
  by (induction pre) auto

lemma user_split:
  assumes "find_user s uid = Some u"
  shows "\<exists>pre post. users s = pre @ u # post \<and> (\<forall>y\<in>set pre. u_id y \<noteq> uid) \<and> u_id u = uid \<and>
           (\<forall>c. set_cart uid c (users s) = pre @ u\<lparr>u_cart := c\<rparr> # post)"
proof -
  from assms obtain pre post where *: "users s = pre @ u # post" "\<forall>y\<in>set pre. u_id y \<noteq> uid" "u_id u = uid"
    unfolding find_user_def by (blast dest: find_split)
  then have "\<forall>c. set_cart uid c (users s) = pre @ u\<lparr>u_cart := c\<rparr> # post"
    by (simp add: set_cart_def update_first_append)
  with * show ?thesis by blast
qed

lemma unshared_iff:
  "unshared s \<longleftrightarrow> distinct (cart_addrs s) \<and>
     (\<forall>a\<in>set (cart_addrs s). a < length (store s) \<and> a \<notin> set (order_addrs s)) \<and>
     (\<forall>a\<in>set (order_addrs s). a < length (store s))"
  by (simp add: unshared_def list_all_iff)

lemma cart_addrs_split:
  assumes "find_user s uid = Some u"
  shows "\<exists>A B. cart_addrs s = A @ u_cart u @ B \<and>
           (\<forall>c. concat (map u_cart (set_cart uid c (users s))) = A @ c @ B)"
proof -
  from user_split[OF assms] obtain pre post where sp: "users s = pre @ u # post"
    "\<And>c. set_cart uid c (users s) = pre @ u\<lparr>u_cart := c\<rparr> # post"
    by blast
  show ?thesis
    apply (rule exI[of _ "concat (map u_cart pre)"])
    apply (rule exI[of _ "concat (map u_cart post)"])
    apply (simp add: cart_addrs_def sp(2))
    apply (simp add: sp(1))
    done
qed

lemma unshared_set_cart:
  assumes "unshared s" "find_user s uid = Some u" "set c \<subseteq> set (u_cart u)" "distinct c"
  shows "unshared (s\<lparr>users := set_cart uid c (users s)\<rparr>)"
proof -
  from cart_addrs_split[OF assms(2)] obtain A B where
    ab: "cart_addrs s = A @ u_cart u @ B"
        "\<And>c. concat (map u_cart (set_cart uid c (users s))) = A @ c @ B"
    by blast
  have d: "distinct (A @ c @ B)"
    using assms(1,3,4) unfolding unshared_iff ab by auto
  have m: "set (A @ c @ B) \<subseteq> set (cart_addrs s)"
    using assms(3) unfolding ab by auto
  show ?thesis
    using assms(1) d m unfolding unshared_iff
    by (simp add: cart_addrs_def order_addrs_def ab(2)) blast
qed

lemma unshared_push:
  assumes "unshared s" "find_user s uid = Some u"
  shows "unshared (s\<lparr>store := store s @ [v],
                     users := set_cart uid (u_cart u @ [length (store s)]) (users s)\<rparr>)"
proof -
  from cart_addrs_split[OF assms(2)] obtain A B where
    ab: "cart_addrs s = A @ u_cart u @ B"
        "\<And>c. concat (map u_cart (set_cart uid c (users s))) = A @ c @ B"
    by blast
  let ?n = "length (store s)"
  have fresh: "?n \<notin> set (cart_addrs s)" "?n \<notin> set (order_addrs s)"
    using assms(1) unfolding unshared_iff by auto
  have d: "distinct (A @ (u_cart u @ [?n]) @ B)"
    using assms(1) fresh(1) unfolding unshared_iff ab by auto
  have m: "set (A @ (u_cart u @ [?n]) @ B) = insert ?n (set (cart_addrs s))"
    unfolding ab by auto
  show ?thesis
    using assms(1) d m fresh unfolding unshared_iff
    by (simp add: cart_addrs_def order_addrs_def ab(2) less_Suc_eq) 
qed

lemma unshared_write: "unshared s \<Longrightarrow> unshared (s\<lparr>store := (store s)[a := v]\<rparr>)"
  unfolding unshared_iff cart_addrs_def order_addrs_def by simp

lemma unshared_checkout:
  assumes "unshared s" "find_user s uid = Some u" "o_items ord = u_cart u"
  shows "unshared (s\<lparr>orders := orders s @ [ord], products := ps,
                     users := set_cart uid [] (users s)\<rparr>)"
proof -
  from cart_addrs_split[OF assms(2)] obtain A B where
    ab: "cart_addrs s = A @ u_cart u @ B"
        "\<And>c. concat (map u_cart (set_cart uid c (users s))) = A @ c @ B"
    by blast
  have d: "distinct (A @ [] @ B)" "set (A @ [] @ B) \<inter> set (u_cart u) = {}"
      "set (A @ [] @ B) \<subseteq> set (cart_addrs s)" "set (u_cart u) \<subseteq> set (cart_addrs s)"
    using assms(1) unfolding unshared_iff ab by auto
  have o: "set (order_addrs (s\<lparr>orders := orders s @ [ord], products := ps,
                     users := set_cart uid [] (users s)\<rparr>)) = set (order_addrs s) \<union> set (u_cart u)"
    by (simp add: order_addrs_def assms(3))
  show ?thesis
    unfolding unshared_iff o using assms(1) d unfolding unshared_iff
    by (simp add: cart_addrs_def ab(2)) blast
qed

lemma unshared_register:
  "unshared s \<Longrightarrow> u_cart nu = [] \<Longrightarrow> unshared (s\<lparr>users := users s @ [nu]\<rparr>)"
  unfolding unshared_iff cart_addrs_def order_addrs_def by simp

lemma find_SomeD: "find P xs = Some x \<Longrightarrow> x \<in> set xs \<and> P x"
  by (induction xs) (auto split: if_splits)

lemma find_None_iff2: "find P xs = None \<longleftrightarrow> (\<forall>x\<in>set xs. \<not> P x)"
  by (induction xs) auto

lemma joinedI: "u_cart nu = [] \<Longrightarrow> joined s (s\<lparr>users := users s @ [nu]\<rparr>)"
  unfolding joined_def by blast

lemma wroteI:
  "find_user s uid = Some u \<Longrightarrow> a \<in> set (u_cart u) \<Longrightarrow> wrote s (s\<lparr>store := (store s)[a := v]\<rparr>)"
  unfolding wrote_def by blast

lemma pushedI:
  "find_user s uid = Some u \<Longrightarrow>
     pushed s (s\<lparr>store := store s @ [v],
                 users := set_cart uid (u_cart u @ [length (store s)]) (users s)\<rparr>)"
  unfolding pushed_def by blast

lemma droppedI:
  "find_user s uid = Some u \<Longrightarrow>
     dropped s (s\<lparr>users := set_cart uid (filter Q (u_cart u)) (users s)\<rparr>)"
  unfolding dropped_def by blast

lemma dropped_allI:
  "find_user s uid = Some u \<Longrightarrow> dropped s (s\<lparr>users := set_cart uid [] (users s)\<rparr>)"
  using droppedI[of s uid u "\<lambda>a. False"] by simp

lemma checked_outI:
  "find_user s uid = Some u \<Longrightarrow> o_items ord = u_cart u \<Longrightarrow>
     checked_out s (s\<lparr>orders := orders s @ [ord], products := ps,
                      users := set_cart uid [] (users s)\<rparr>)"
  unfolding checked_out_def by blast

lemma register_commit_effect:
  "register_commit rt un em pw s = (resp, s') \<Longrightarrow> s' = s \<or> joined s s'"
  by (auto simp: register_commit_def Let_def split: option.splits intro!: joinedI)

lemma register_effect:
  "register rt un em pw s = Inr (resp, s') \<Longrightarrow> s' = s \<or> joined s s'"
  by (auto simp: register_def split: option.splits dest: register_commit_effect)

lemma login_effect: "login rt em pw s = Inr (resp, s') \<Longrightarrow> s' = s"
  by (auto simp: login_def split: if_splits option.splits)

lemma addToCart_effect:
  "addToCart uid pid q s = Inr (resp, s') \<Longrightarrow> s' = s \<or> wrote s s' \<or> pushed s s'"
  unfolding addToCart_def Let_def
  by (auto split: if_splits option.splits dest: find_SomeD intro: wroteI pushedI)

lemma updateCartItem_effect:
  "updateCartItem uid pid q s = Inr (resp, s') \<Longrightarrow> s' = s \<or> wrote s s' \<or> dropped s s'"
  unfolding updateCartItem_def Let_def
  by (auto split: if_splits option.splits dest: find_SomeD intro: wroteI droppedI)

lemma removeCartItem_effect:
  "removeCartItem uid pid s = Inr (resp, s') \<Longrightarrow> s' = s \<or> dropped s s'"
  unfolding removeCartItem_def Let_def
  by (auto split: if_splits option.splits intro: droppedI)

lemma clearCart_effect:
  "clearCart uid s = Inr (resp, s') \<Longrightarrow> dropped s s'"
  by (auto simp: clearCart_def split: option.splits intro: dropped_allI)

lemma createOrder_effect:
  "createOrder rt uid s = Inr (resp, s') \<Longrightarrow> s' = s \<or> checked_out s s'"
  unfolding createOrder_def Let_def
  by (auto split: if_splits option.splits intro!: checked_outI)

lemma handle_effect:
  "handle rt r s = Inr (resp, s') \<Longrightarrow>
     s' = s \<or> joined s s' \<or> wrote s s' \<or> pushed s s' \<or> dropped s s' \<or> checked_out s s'"
proof (cases r)
  case (Register un em pw) then show "handle rt r s = Inr (resp, s') \<Longrightarrow> ?thesis"
    by (auto dest: register_effect)
next
  case (RegisterHashed un em pw) then show "handle rt r s = Inr (resp, s') \<Longrightarrow> ?thesis"
    by (auto dest: register_commit_effect)
next
  case (AddToCart uid pid q) then show "handle rt r s = Inr (resp, s') \<Longrightarrow> ?thesis"
    by (auto dest: addToCart_effect)
next
  case (UpdateCartItem uid pid q) then show "handle rt r s = Inr (resp, s') \<Longrightarrow> ?thesis"
    by (auto dest: updateCartItem_effect)
next
  case (RemoveCartItem uid pid) then show "handle rt r s = Inr (resp, s') \<Longrightarrow> ?thesis"
    by (auto dest: removeCartItem_effect)
next
  case (ClearCart uid) then show "handle rt r s = Inr (resp, s') \<Longrightarrow> ?thesis"
    by (auto dest: clearCart_effect)
next
  case (CreateOrder uid) then show "handle rt r s = Inr (resp, s') \<Longrightarrow> ?thesis"
    by (auto dest: createOrder_effect)
qed (auto simp: login_effect listProducts_def getProduct_def searchProducts_def getCart_def
       listOrders_def getOrder_def Let_def split: option.splits)

subsection \<open>Responses and the example shop\<close>

lemma fail_not_ok [simp]: "success (fail c m) = Some False" "success (ok c m' d) = Some True"
  "status (fail c m) = c" "status (ok c m' d) = c"
  by (simp_all add: fail_def ok_def)

lemma shop_bob: "find_user shop 2 = Some bob"
  by (simp add: find_user_def shop_def alice_def bob_def)

lemma shop_alice: "find_user shop 1 = Some alice"
  by (simp add: find_user_def shop_def alice_def)

lemma find_append_first:
  "\<forall>y\<in>set pre. \<not> P y \<Longrightarrow> P x \<Longrightarrow> find P (pre @ x # post) = Some x"
  by (induction pre) auto

lemma find_user_set_cart:
  assumes "find_user s uid = Some user"
  shows "find (\<lambda>u. u_id u = uid) (set_cart uid c (users s)) = Some (user\<lparr>u_cart := c\<rparr>)"
proof -
  from user_split[OF assms] obtain pre post where
    "\<forall>y\<in>set pre. u_id y \<noteq> uid" "u_id u = uid \<Longrightarrow> True" "u_id user = uid"
    "set_cart uid c (users s) = pre @ user\<lparr>u_cart := c\<rparr> # post" for u
    by blast
  then show ?thesis by (simp add: find_append_first)
qed

lemma unshared_effect:
  assumes "unshared s"
    and "s' = s \<or> joined s s' \<or> wrote s s' \<or> pushed s s' \<or> dropped s s' \<or> checked_out s s'"
  shows "unshared s'"
proof -
  have cart: "distinct (u_cart u)" if "find_user s uid = Some u" for uid u
  proof -
    from cart_addrs_split[OF that] obtain A B where "cart_addrs s = A @ u_cart u @ B" by blast
    with assms(1) show ?thesis by (simp add: unshared_iff)
  qed
  from assms(2) consider "s' = s" | "joined s s'" | "wrote s s'" | "pushed s s'"
    | "dropped s s'" | "checked_out s s'" by blast
  then show ?thesis
  proof cases
    case 1 with assms(1) show ?thesis by simp
  next
    case 2 with assms(1) show ?thesis by (auto simp: joined_def intro: unshared_register)
  next
    case 3 with assms(1) show ?thesis by (auto simp: wrote_def intro: unshared_write)
  next
    case 4 with assms(1) show ?thesis by (auto simp: pushed_def intro: unshared_push)
  next
    case 5
    then obtain uid u Q where d: "find_user s uid = Some u"
      "s' = s\<lparr>users := set_cart uid (filter Q (u_cart u)) (users s)\<rparr>"
      unfolding dropped_def by blast
    from cart[OF d(1)] have "distinct (filter Q (u_cart u))" by simp
    with unshared_set_cart[OF assms(1) d(1), of "filter Q (u_cart u)"] d(2) show ?thesis by simp
  next
    case 6 with assms(1) show ?thesis by (auto simp: checked_out_def intro: unshared_checkout)
  qed
qed

lemma after_cases:
  obtains "after rt r s = s" | resp where "handle rt r s = Inr (resp, after rt r s)"
proof (cases "handle rt r s")
  case (Inl e)
  then have "after rt r s = s" by (simp add: after_def)
  then show ?thesis by (rule that(1))
next
  case (Inr p)
  then have "handle rt r s = Inr (fst p, after rt r s)" by (cases p) (simp add: after_def)
  then show ?thesis by (rule that(2))
qed

lemma unshared_after: "unshared s \<Longrightarrow> unshared (after rt r s)"
proof (cases rule: after_cases[of rt r s])
  case 1
  assume "unshared s" with 1 show ?thesis by simp
next
  case (2 resp)
  assume "unshared s"
  with handle_effect[OF 2] show ?thesis by (rule unshared_effect[rotated])
qed

lemma unshared_run: "unshared s \<Longrightarrow> unshared (run reqs s)"
  by (induction reqs arbitrary: s) (auto simp: unshared_after)

text \<open>What a write leaves alone: the orders so far, and the lines their items point to.\<close>

lemma orders_effect:
  assumes "unshared s"
    and "s' = s \<or> joined s s' \<or> wrote s s' \<or> pushed s s' \<or> dropped s s' \<or> checked_out s s'"
  shows "(\<exists>new. orders s' = orders s @ new) \<and>
         (\<forall>a\<in>set (order_addrs s). deref s' a = deref s a)"
proof -
  have mem: "set (u_cart u) \<subseteq> set (cart_addrs s)" if "find_user s uid = Some u" for uid u
  proof -
    from cart_addrs_split[OF that] obtain A B where "cart_addrs s = A @ u_cart u @ B" by blast
    then show ?thesis by auto
  qed
  from assms(2) consider "s' = s" | "joined s s'" | "wrote s s'" | "pushed s s'"
    | "dropped s s'" | "checked_out s s'" by blast
  then show ?thesis
  proof cases
    case 1 then show ?thesis by simp
  next
    case 2 then show ?thesis by (auto simp: joined_def deref_def)
  next
    case 3
    then obtain uid u a v where w: "find_user s uid = Some u" "a \<in> set (u_cart u)"
      "s' = s\<lparr>store := (store s)[a := v]\<rparr>"
      unfolding wrote_def by blast
    from mem[OF w(1)] w(2) assms(1) have "a \<notin> set (order_addrs s)"
      by (auto simp: unshared_iff)
    then have "\<forall>b\<in>set (order_addrs s). a \<noteq> b" by blast
    then have "\<forall>b\<in>set (order_addrs s). deref s' b = deref s b"
      by (simp add: w(3) deref_def)
    then show ?thesis by (simp add: w(3))
  next
    case 4
    then obtain uid u v where "find_user s uid = Some u" and w: "s' = s\<lparr>store := store s @ [v],
               users := set_cart uid (u_cart u @ [length (store s)]) (users s)\<rparr>"
      unfolding pushed_def by blast
    from assms(1) have "\<forall>b\<in>set (order_addrs s). b < length (store s)"
      by (simp add: unshared_iff)
    then show ?thesis by (simp add: w deref_def nth_append)
  next
    case 5 then show ?thesis by (auto simp: dropped_def deref_def)
  next
    case 6 then show ?thesis by (auto simp: checked_out_def deref_def)
  qed
qed

lemma order_addrs_mono:
  "orders s' = orders s @ new \<Longrightarrow> set (order_addrs s) \<subseteq> set (order_addrs s')"
  by (simp add: order_addrs_def)

lemma orders_after:
  assumes "unshared s"
  shows "(\<exists>new. orders (after rt r s) = orders s @ new) \<and>
         (\<forall>a\<in>set (order_addrs s). deref (after rt r s) a = deref s a)"
proof (cases rule: after_cases[of rt r s])
  case 1
  then show ?thesis by simp
next
  case (2 resp)
  from orders_effect[OF assms handle_effect[OF 2]] show ?thesis .
qed

lemma orders_run:
  assumes "unshared s"
  shows "(\<exists>new. orders (run reqs s) = orders s @ new) \<and>
         (\<forall>a\<in>set (order_addrs s). deref (run reqs s) a = deref s a)"
  using assms
proof (induction reqs arbitrary: s)
  case Nil
  then show ?case by simp
next
  case (Cons p reqs)
  obtain rt r where p: "p = (rt, r)" by (cases p)
  let ?m = "after rt r s"
  from orders_after[OF Cons.prems, of rt r] obtain new1 where
    a: "orders ?m = orders s @ new1" "\<forall>a\<in>set (order_addrs s). deref ?m a = deref s a"
    by blast
  from Cons.IH[OF unshared_after[OF Cons.prems], of rt r] obtain new2 where
    b: "orders (run reqs ?m) = orders ?m @ new2"
       "\<forall>a\<in>set (order_addrs ?m). deref (run reqs ?m) a = deref ?m a"
    by blast
  from order_addrs_mono[OF a(1)] a(2) b(2)
  have "\<forall>a\<in>set (order_addrs s). deref (run reqs ?m) a = deref s a"
    by (metis subsetD)
  moreover from a(1) b(1) have "orders (run reqs ?m) = orders s @ (new1 @ new2)" by simp
  ultimately show ?case unfolding p run.simps by blast
qed

lemma deref_other [simp]:
  "deref (s\<lparr>orders := os\<rparr>) = deref s" "deref (s\<lparr>products := ps\<rparr>) = deref s"
  "deref (s\<lparr>users := us\<rparr>) = deref s"
  by (simp_all add: fun_eq_iff deref_def)

lemma cart_view_other [simp]:
  "cart_view (s\<lparr>orders := os\<rparr>) = cart_view s" "cart_view (s\<lparr>products := ps\<rparr>) = cart_view s"
  "cart_view (s\<lparr>users := us\<rparr>) = cart_view s"
  by (simp_all add: fun_eq_iff cart_view_def)

lemma cart_view_cong:
  "\<forall>a\<in>set as. deref s' a = deref s a \<Longrightarrow> cart_view s' as = cart_view s as"
  by (simp add: cart_view_def)

lemma order_items_addrs: "ord \<in> set (orders s) \<Longrightarrow> set (o_items ord) \<subseteq> set (order_addrs s)"
  by (auto simp: order_addrs_def)

lemma shop_unshared: "unshared shop"
  by (simp add: unshared_def cart_addrs_def order_addrs_def shop_def alice_def bob_def
        bobs_order_def)

lemma find_view:
  "find P (cart_view s as) = map_option (deref s) (find (\<lambda>a. P (deref s a)) as)"
  unfolding cart_view_def by (induction as) auto

lemma filter_view:
  "filter P (cart_view s as) = cart_view s (filter (\<lambda>a. P (deref s a)) as)"
  unfolding cart_view_def by (induction as) auto

lemma user_cart_ok:
  assumes "unshared s" "find_user s uid = Some user"
  shows "distinct (u_cart user)" "\<forall>a\<in>set (u_cart user). a < length (store s)"
proof -
  from cart_addrs_split[OF assms(2)] obtain A B where ab: "cart_addrs s = A @ u_cart user @ B"
    by blast
  with assms(1) show "distinct (u_cart user)" by (simp add: unshared_iff)
  from ab assms(1) show "\<forall>a\<in>set (u_cart user). a < length (store s)"
    by (auto simp: unshared_iff)
qed

lemma view_write:
  assumes "distinct as" "\<forall>b\<in>set as. b < length (store s)"
    and "find (\<lambda>a. P (deref s a)) as = Some a"
  shows "cart_view (s\<lparr>store := (store s)[a := f (deref s a)]\<rparr>) as =
           update_first P f (cart_view s as)"
  using assms
proof (induction as)
  case Nil
  then show ?case by simp
next
  case (Cons b bs)
  show ?case
  proof (cases "P (deref s b)")
    case True
    with Cons.prems(3) have ab: "a = b" by simp
    with Cons.prems(1) have "\<forall>c\<in>set bs. a \<noteq> c" by auto
    then have "map (deref (s\<lparr>store := (store s)[a := f (deref s a)]\<rparr>)) bs = map (deref s) bs"
      by (simp add: deref_def)
    with True ab Cons.prems(2) show ?thesis
      by (simp add: cart_view_def deref_def)
  next
    case False
    with Cons.prems(3) have f: "find (\<lambda>a. P (deref s a)) bs = Some a" by simp
    then have "P (deref s a)" by (auto dest: find_SomeD)
    with False have "a \<noteq> b" by auto
    with False Cons.IH[OF _ _ f] Cons.prems(1,2) show ?thesis
      by (simp add: cart_view_def deref_def)
  qed
qed


lemma find_user_other [simp]:
  "find_user (s\<lparr>store := st\<rparr>) = find_user s" "find_user (s\<lparr>orders := os\<rparr>) = find_user s"
  "find_user (s\<lparr>products := ps\<rparr>) = find_user s"
  by (simp_all add: fun_eq_iff find_user_def)

lemma find_user_set_cart':
  "find_user s uid = Some user \<Longrightarrow>
     find_user (s\<lparr>users := set_cart uid c (users s)\<rparr>) uid = Some (user\<lparr>u_cart := c\<rparr>)"
  using find_user_set_cart[of s uid user c] by (simp add: find_user_def)

lemma cart_writeI1:
  "find_user s uid = Some u \<Longrightarrow> a \<in> set (u_cart u) \<Longrightarrow>
     cart_write uid s (s\<lparr>store := (store s)[a := v]\<rparr>)"
  unfolding cart_write_def by blast

lemma cart_writeI2:
  "find_user s uid = Some u \<Longrightarrow>
     cart_write uid s (s\<lparr>store := store s @ [v],
                         users := set_cart uid (u_cart u @ [length (store s)]) (users s)\<rparr>)"
  unfolding cart_write_def by blast

lemma cart_writeI3:
  "find_user s uid = Some u \<Longrightarrow> cart_write uid s (s\<lparr>users := set_cart uid c (users s)\<rparr>)"
  unfolding cart_write_def by blast

lemma cart_request_effect:
  assumes "cart_request uid r" "handle rt r s = Inr (resp, s')"
  shows "s' = s \<or> cart_write uid s s'"
proof (cases r)
  case (GetCart u)
  with assms show ?thesis by (auto simp: getCart_def split: option.splits)
next
  case (AddToCart u pid q)
  with assms show ?thesis
    by (auto simp: addToCart_def Let_def split: if_splits option.splits dest: find_SomeD
          intro: cart_writeI1 cart_writeI2)
next
  case (UpdateCartItem u pid q)
  with assms show ?thesis
    by (auto simp: updateCartItem_def Let_def split: if_splits option.splits dest: find_SomeD
          intro: cart_writeI1 cart_writeI3)
next
  case (RemoveCartItem u pid)
  with assms show ?thesis
    by (auto simp: removeCartItem_def Let_def split: if_splits option.splits intro: cart_writeI3)
next
  case (ClearCart u)
  with assms show ?thesis
    by (auto simp: clearCart_def split: option.splits intro: cart_writeI3)
qed (use assms in auto)

lemma set_cart_nth:
  "i < length us \<Longrightarrow>
     set_cart uid c us ! i = (us ! i)\<lparr>u_cart := u_cart (set_cart uid c us ! i)\<rparr> \<and>
     (u_id (us ! i) \<noteq> uid \<longrightarrow> set_cart uid c us ! i = us ! i)"
  unfolding set_cart_def
proof (induction us arbitrary: i)
  case Nil
  then show ?case by simp
next
  case (Cons x xs)
  then show ?case by (cases i) auto
qed

lemma length_set_cart [simp]: "length (set_cart uid c us) = length us"
  by (simp add: set_cart_def)

lemma other_cart_disjoint:
  assumes "unshared s" "find_user s uid = Some u" "x \<in> set (users s)" "u_id x \<noteq> uid"
  shows "set (u_cart x) \<inter> set (u_cart u) = {}"
proof -
  from user_split[OF assms(2)] obtain pre post where
    sp: "users s = pre @ u # post" "u_id u = uid"
    by blast
  with assms(3,4) have "x \<in> set pre \<union> set post" by auto
  then have "set (u_cart x) \<subseteq> set (concat (map u_cart pre)) \<union> set (concat (map u_cart post))"
    by auto
  moreover from assms(1) sp(1)
  have "(set (concat (map u_cart pre)) \<union> set (concat (map u_cart post))) \<inter> set (u_cart u) = {}"
    by (auto simp: unshared_iff cart_addrs_def)
  ultimately show ?thesis by blast
qed

lemma all_addrs_allocated:
  assumes "unshared s"
  shows "\<forall>x\<in>set (users s). \<forall>a\<in>set (u_cart x). a < length (store s)"
    "\<forall>ord\<in>set (orders s). \<forall>a\<in>set (o_items ord). a < length (store s)"
  using assms by (auto simp: unshared_iff cart_addrs_def order_addrs_def)

lemma order_cart_disjoint:
  assumes "unshared s" "find_user s uid = Some u" "ord \<in> set (orders s)"
  shows "set (o_items ord) \<inter> set (u_cart u) = {}"
proof -
  from cart_addrs_split[OF assms(2)] obtain A B where "cart_addrs s = A @ u_cart u @ B" by blast
  then have "set (u_cart u) \<subseteq> set (cart_addrs s)" by auto
  moreover from assms(3) have "set (o_items ord) \<subseteq> set (order_addrs s)"
    by (auto simp: order_addrs_def)
  ultimately show ?thesis using assms(1) by (auto simp: unshared_iff)
qed

lemma view_frame_write:
  "a \<notin> set as \<Longrightarrow> cart_view (s\<lparr>store := (store s)[a := v]\<rparr>) as = cart_view s as"
  by (simp add: cart_view_def deref_def) (metis nth_list_update_neq)

lemma view_frame_push:
  "\<forall>b\<in>set as. b < length (store s) \<Longrightarrow>
     cart_view (s\<lparr>store := store s @ [v]\<rparr>) as = cart_view s as"
  by (simp add: cart_view_def deref_def nth_append)

lemma cart_write_frame:
  assumes "unshared s" "s' = s \<or> cart_write uid s s'"
  shows "products s' = products s \<and> orders s' = orders s \<and>
         (\<forall>ord\<in>set (orders s). cart_view s' (o_items ord) = cart_view s (o_items ord)) \<and>
         length (users s') = length (users s) \<and>
         (\<forall>i<length (users s).
             users s' ! i = (users s ! i)\<lparr>u_cart := u_cart (users s' ! i)\<rparr> \<and>
             (u_id (users s ! i) \<noteq> uid \<longrightarrow>
                users s' ! i = users s ! i \<and>
                cart_view s' (u_cart (users s ! i)) = cart_view s (u_cart (users s ! i))))"
proof -
  from assms(2) consider "s' = s"
    | u a v where "find_user s uid = Some u" "a \<in> set (u_cart u)"
        "s' = s\<lparr>store := (store s)[a := v]\<rparr>"
    | u v where "find_user s uid = Some u"
        "s' = s\<lparr>store := store s @ [v],
               users := set_cart uid (u_cart u @ [length (store s)]) (users s)\<rparr>"
    | u c where "find_user s uid = Some u" "s' = s\<lparr>users := set_cart uid c (users s)\<rparr>"
    unfolding cart_write_def by blast
  then show ?thesis
  proof cases
    case 1
    then show ?thesis by simp
  next
    case 2
    have o: "\<forall>ord\<in>set (orders s). cart_view s' (o_items ord) = cart_view s (o_items ord)"
    proof
      fix ord assume "ord \<in> set (orders s)"
      from order_cart_disjoint[OF assms(1) 2(1) this] 2(2) have "a \<notin> set (o_items ord)" by blast
      then show "cart_view s' (o_items ord) = cart_view s (o_items ord)"
        unfolding 2(3) by (rule view_frame_write)
    qed
    have u: "\<forall>i<length (users s). u_id (users s ! i) \<noteq> uid \<longrightarrow>
        cart_view s' (u_cart (users s ! i)) = cart_view s (u_cart (users s ! i))"
    proof (intro allI impI)
      fix i assume "i < length (users s)" "u_id (users s ! i) \<noteq> uid"
      then have "users s ! i \<in> set (users s)" by simp
      from other_cart_disjoint[OF assms(1) 2(1) this \<open>u_id (users s ! i) \<noteq> uid\<close>] 2(2)
      have "a \<notin> set (u_cart (users s ! i))" by blast
      then show "cart_view s' (u_cart (users s ! i)) = cart_view s (u_cart (users s ! i))"
        unfolding 2(3) by (rule view_frame_write)
    qed
    from o u show ?thesis by (simp add: 2(3))
  next
    case 3
    let ?m = "s\<lparr>store := store s @ [v]\<rparr>"
    have o: "\<forall>ord\<in>set (orders s). cart_view s' (o_items ord) = cart_view s (o_items ord)"
      using all_addrs_allocated(2)[OF assms(1)] by (simp add: 3(2) view_frame_push)
    have u: "\<forall>i<length (users s). cart_view s' (u_cart (users s ! i)) = cart_view s (u_cart (users s ! i))"
    proof (intro allI impI)
      fix i assume "i < length (users s)"
      then have "users s ! i \<in> set (users s)" by simp
      with all_addrs_allocated(1)[OF assms(1)]
      have "\<forall>b\<in>set (u_cart (users s ! i)). b < length (store s)" by blast
      then show "cart_view s' (u_cart (users s ! i)) = cart_view s (u_cart (users s ! i))"
        by (simp add: 3(2) view_frame_push)
    qed
    from o u set_cart_nth[of _ "users s" uid] show ?thesis by (simp add: 3(2))
  next
    case 4
    from set_cart_nth[of _ "users s" uid c] show ?thesis by (simp add: 4(2))
  qed
qed


subsection \<open>Adding to the cart\<close>




subsection \<open>Checkout\<close>

lemma createOrder_shares:
  assumes "find_user s uid = Some user" "u_cart user \<noteq> []"
  shows "\<exists>ord s1. createOrder rt uid s =
            Inr (ok 201 (Some (''Order placed successfully! '' @ party_emoji))
                   (OrderData ord (cart_view s (u_cart user))), s1) \<and>
           o_items ord = u_cart user \<and> o_status ord = ''pending'' \<and>
           o_total ord = parseFloat (toFixed2 (cartTotal (cart_view s (u_cart user)))) \<and>
           orders s1 = orders s @ [ord] \<and> store s1 = store s \<and>
           find_user s1 uid = Some (user\<lparr>u_cart := []\<rparr>)"
  using assms find_user_set_cart'[OF assms(1), of "[]"]
  by (simp add: createOrder_def Let_def find_user_def)

subsection \<open>Evaluations in the example shop\<close>

lemma shop_alice_view: "cart_view shop (u_cart alice) = [two_laptops]"
  by (simp add: cart_view_def deref_def shop_def alice_def)







lemma laptops_total: "parseFloat (toFixed2 (cartTotal [two_laptops])) = Fin 2000"
  by code_simp

lemma laptops_taken: "sub (Fin 5) (Fin 2) = Fin 3"
  by code_simp

lemma shop_checkout:
  "createOrder rt0 1 shop =
     Inr (ok 201 (Some (''Order placed successfully! '' @ party_emoji))
            (OrderData alices_order [two_laptops]), shop_checked_out)"
proof -
  have "foldl take_stock (products shop) (cart_view shop (u_cart alice)) =
      [laptop\<lparr>p_stock := Fin 3\<rparr>, mouse]"
    unfolding shop_alice_view
    by (simp add: take_stock_def shop_def laptop_def mouse_def two_laptops_def laptops_taken)
  moreover have "set_cart 1 [] (users shop) = [alice\<lparr>u_cart := []\<rparr>, bob]"
    by (simp add: set_cart_def shop_def alice_def)
  moreover have "u_cart alice = [0]" "u_id alice = 1" "u_username alice = Str ''alice''"
    "orders shop = [bobs_order]" "store shop = [two_laptops, two_mice]" "now rt0 = 1700000000"
    by (simp_all add: alice_def shop_def rt0_def)
  ultimately show ?thesis
    using shop_alice shop_alice_view laptops_total
    by (simp add: createOrder_def Let_def alices_order_def shop_checked_out_def
          cart_view_def deref_def numeral_2_eq_2 shop_def)
qed

lemma shop_put_no_quantity:
  "updateCartItem 1 (Some 1) Undefined shop =
     Inr (ok 200 (Some ''Cart updated'') (CartData [no_quantity]), shop_no_quantity)"
  using shop_alice
  by (simp add: updateCartItem_def Let_def cart_view_def deref_def shop_def alice_def
        two_laptops_def no_quantity_def shop_no_quantity_def)

lemma shop_no_quantity_alice: "find_user shop_no_quantity 1 = Some alice"
  using shop_alice by (simp add: find_user_def shop_no_quantity_def)

lemma shop_no_quantity_view: "cart_view shop_no_quantity (u_cart alice) = [no_quantity]"
  by (simp add: cart_view_def deref_def shop_no_quantity_def shop_def alice_def)

lemma no_quantity_total: "cartTotal [no_quantity] = NaN"
  by (simp add: cartTotal_def no_quantity_def two_laptops_def)

lemma parseFloat_NaN: "parseFloat ''NaN'' = NaN"
  by code_simp

lemma shop_put_many:
  "updateCartItem 1 (Some 1) (Num (Fin (10 ^ 22))) shop =
     Inr (ok 200 (Some ''Cart updated'') (CartData [many_laptops]), shop_many)"
  using shop_alice
  by (simp add: updateCartItem_def Let_def cart_view_def deref_def shop_def alice_def
        two_laptops_def many_laptops_def shop_many_def)

lemma shop_many_alice: "find_user shop_many 1 = Some alice"
  using shop_alice by (simp add: find_user_def shop_many_def)

lemma shop_many_view: "cart_view shop_many (u_cart alice) = [many_laptops]"
  by (simp add: cart_view_def deref_def shop_many_def shop_def alice_def)

lemma many_is_double: "rnd (10 ^ 22) = Fin (10 ^ 22)"
  by code_simp

lemma many_total: "toFixed2 (cartTotal [many_laptops]) = ''1e+25''"
  by code_simp

section \<open>The claims\<close>

subsection \<open>C9: a failed request writes nothing\<close>

text \<open>
  Claim C9. Whenever an endpoint answers with \<open>success: false\<close>, the status is 400,
  404 or 500 and the users (with their carts), the products, the orders and the store of
  cart lines are exactly as they were before the request.
\<close>

theorem error_response_atomic:
  "handle rt r s = Inr (resp, s') \<Longrightarrow> success resp = Some False \<Longrightarrow>
     s' = s \<and> status resp \<in> {400, 404, 500}"
proof (cases r)
  case (Register un em pw)
  then show "handle rt r s = Inr (resp, s') \<Longrightarrow> success resp = Some False \<Longrightarrow> ?thesis"
    by (auto simp: register_def register_check_def register_commit_def Let_def
          split: if_splits option.splits)
next
  case (RegisterHashed un em pw)
  then show "handle rt r s = Inr (resp, s') \<Longrightarrow> success resp = Some False \<Longrightarrow> ?thesis"
    by (auto simp: register_commit_def Let_def split: option.splits)
next
  case (Login em pw)
  then show "handle rt r s = Inr (resp, s') \<Longrightarrow> success resp = Some False \<Longrightarrow> ?thesis"
    by (auto simp: login_def split: if_splits option.splits)
next
  case (AddToCart uid pid q)
  then show "handle rt r s = Inr (resp, s') \<Longrightarrow> success resp = Some False \<Longrightarrow> ?thesis"
    by (auto simp: addToCart_def Let_def split: if_splits option.splits)
next
  case (UpdateCartItem uid pid q)
  then show "handle rt r s = Inr (resp, s') \<Longrightarrow> success resp = Some False \<Longrightarrow> ?thesis"
    by (auto simp: updateCartItem_def Let_def split: if_splits option.splits)
next
  case (RemoveCartItem uid pid)
  then show "handle rt r s = Inr (resp, s') \<Longrightarrow> success resp = Some False \<Longrightarrow> ?thesis"
    by (auto simp: removeCartItem_def Let_def split: if_splits option.splits)
next
  case (ClearCart uid)
  then show "handle rt r s = Inr (resp, s') \<Longrightarrow> success resp = Some False \<Longrightarrow> ?thesis"
    by (auto simp: clearCart_def split: option.splits)
next
  case (CreateOrder uid)
  then show "handle rt r s = Inr (resp, s') \<Longrightarrow> success resp = Some False \<Longrightarrow> ?thesis"
    by (auto simp: createOrder_def Let_def split: if_splits option.splits)
next
  case (GetOrder uid param)
  then show "handle rt r s = Inr (resp, s') \<Longrightarrow> success resp = Some False \<Longrightarrow> ?thesis"
    by (auto simp: getOrder_def split: option.splits)
next
  case (GetProduct param)
  then show "handle rt r s = Inr (resp, s') \<Longrightarrow> success resp = Some False \<Longrightarrow> ?thesis"
    by (auto simp: getProduct_def split: option.splits)
qed (auto simp: listProducts_def searchProducts_def getCart_def listOrders_def Let_def
       split: option.splits)

theorem error_response_atomic_witness:
  "handle rt0 (CreateOrder 2) shop = Inr (fail 400 ''Your cart is empty'', shop) \<and>
   success (fail 400 ''Your cart is empty'') = Some False \<and>
   status (fail 400 ''Your cart is empty'') \<in> {400, 404, 500}"
proof -
  have h: "handle rt0 (CreateOrder 2) shop = Inr (fail 400 ''Your cart is empty'', shop)"
    by (simp add: createOrder_def shop_bob) (simp add: bob_def)
  from error_response_atomic[OF h] h show ?thesis by simp
qed

subsection \<open>C6: orders are private\<close>

text \<open>
  Claim C6. \<open>listOrders\<close> answers with exactly the orders whose \<open>userId\<close> is the
  id of the requesting user, each with its items. \<open>getOrder\<close> answers 404
  \<open>Order not found\<close> whenever no order has the requested id or every order with that id
  belongs to another user, and an order it does return belongs to the requesting user.
\<close>

theorem orders_are_private:
  "(\<exists>rows. listOrders uid s = Inr (ok 200 None (OrderList (length rows) rows), s) \<and>
      map fst rows = filter (\<lambda>ord. o_userId ord = uid) (orders s) \<and>
      (\<forall>(ord, items)\<in>set rows. o_userId ord = uid \<and> items = cart_view s (o_items ord))) \<and>
   ((\<forall>ord\<in>set (orders s). Some (int (o_id ord)) = param \<longrightarrow> o_userId ord \<noteq> uid) \<longrightarrow>
      getOrder uid param s = Inr (fail 404 ''Order not found'', s)) \<and>
   (\<forall>resp s'. getOrder uid param s = Inr (resp, s') \<and> success resp = Some True \<longrightarrow>
      (\<exists>ord. payload resp = OrderData ord (cart_view s (o_items ord)) \<and> ord \<in> set (orders s) \<and>
         o_userId ord = uid \<and> Some (int (o_id ord)) = param \<and> s' = s))"
proof (intro conjI)
  let ?mine = "filter (\<lambda>ord. o_userId ord = uid) (orders s)"
  let ?rows = "map (\<lambda>ord. (ord, cart_view s (o_items ord))) ?mine"
  have "listOrders uid s = Inr (ok 200 None (OrderList (length ?rows) ?rows), s)"
    by (simp add: listOrders_def Let_def)
  moreover have "map fst ?rows = ?mine"
    by (simp add: comp_def)
  moreover have "\<forall>(ord, items)\<in>set ?rows. o_userId ord = uid \<and> items = cart_view s (o_items ord)"
    by auto
  ultimately show "\<exists>rows. listOrders uid s = Inr (ok 200 None (OrderList (length rows) rows), s) \<and>
      map fst rows = filter (\<lambda>ord. o_userId ord = uid) (orders s) \<and>
      (\<forall>(ord, items)\<in>set rows. o_userId ord = uid \<and> items = cart_view s (o_items ord))"
    by blast
next
  show "(\<forall>ord\<in>set (orders s). Some (int (o_id ord)) = param \<longrightarrow> o_userId ord \<noteq> uid) \<longrightarrow>
      getOrder uid param s = Inr (fail 404 ''Order not found'', s)"
  proof
    assume "\<forall>ord\<in>set (orders s). Some (int (o_id ord)) = param \<longrightarrow> o_userId ord \<noteq> uid"
    then have "find (\<lambda>ord. Some (int (o_id ord)) = param \<and> o_userId ord = uid) (orders s) = None"
      by (simp add: find_None_iff2)
    then show "getOrder uid param s = Inr (fail 404 ''Order not found'', s)"
      by (simp add: getOrder_def)
  qed
next
  show "\<forall>resp s'. getOrder uid param s = Inr (resp, s') \<and> success resp = Some True \<longrightarrow>
      (\<exists>ord. payload resp = OrderData ord (cart_view s (o_items ord)) \<and> ord \<in> set (orders s) \<and>
         o_userId ord = uid \<and> Some (int (o_id ord)) = param \<and> s' = s)"
    by (auto simp: getOrder_def ok_def split: option.splits dest: find_SomeD)
qed

theorem orders_are_private_witness:
  "orders shop = [bobs_order] \<and> o_userId bobs_order = 2 \<and> o_id bobs_order = 1 \<and>
   getOrder 1 (Some 1) shop = Inr (fail 404 ''Order not found'', shop) \<and>
   listOrders 1 shop = Inr (ok 200 None (OrderList 0 []), shop)"
proof -
  have o: "orders shop = [bobs_order]" "o_userId bobs_order = 2" "o_id bobs_order = 1"
    by (simp_all add: shop_def bobs_order_def)
  then have h: "\<forall>ord\<in>set (orders shop). Some (int (o_id ord)) = Some 1 \<longrightarrow> o_userId ord \<noteq> 1"
    by simp
  from orders_are_private[of 1 shop "Some 1"] h
  have g: "getOrder 1 (Some 1) shop = Inr (fail 404 ''Order not found'', shop)"
    by blast
  from orders_are_private[of 1 shop "Some 1"] obtain rows where
    r: "listOrders 1 shop = Inr (ok 200 None (OrderList (length rows) rows), shop)"
       "map fst rows = filter (\<lambda>ord. o_userId ord = 1) (orders shop)"
    by blast
  from r(2) o have "rows = []" by simp
  with r(1) o g show ?thesis by simp
qed

subsection \<open>C5: what login tells about an email\<close>

text \<open>
  Claim C5 does not hold of the code. An attempt that supplies an email and a
  password gets 400 \<open>Invalid email or password\<close> when no user has the email, and
  when a user has it and \<open>bcrypt.compare\<close> says that the password does not match.
  When a user has the email and \<open>bcrypt.compare\<close> throws, the handler's \<open>catch\<close>
  answers 500 \<open>Server error\<close>. bcryptjs throws on a password that is not a string,
  and the handler asks only that the password be truthy: with the password 12345
  the answer is 500 for a registered email and 400 for an unknown one.
\<close>

theorem login_error_responses:
  assumes "truthy email" "truthy password"
  shows "((\<forall>u\<in>set (users s). \<not> strict_eq (u_email u) email) \<longrightarrow>
            login rt email password s = Inr (fail 400 ''Invalid email or password'', s)) \<and>
         (\<forall>user. find (\<lambda>u. strict_eq (u_email u) email) (users s) = Some user \<longrightarrow>
            (bcrypt_compare rt password (u_password user) = Some False \<longrightarrow>
               login rt email password s = Inr (fail 400 ''Invalid email or password'', s)) \<and>
            (bcrypt_compare rt password (u_password user) = None \<longrightarrow>
               login rt email password s = Inr (fail 500 ''Server error'', s)))"
  using assms by (simp add: login_def find_None_iff2[THEN iffD2])

theorem login_error_responses_witness:
  "login rt0 (Str ''carol@x.com'') (Num (Fin 12345)) shop =
     Inr (fail 400 ''Invalid email or password'', shop) \<and>
   login rt0 (Str ''alice@x.com'') (Num (Fin 12345)) shop =
     Inr (fail 500 ''Server error'', shop) \<and>
   login rt0 (Str ''alice@x.com'') (Str ''letmein'') shop =
     Inr (fail 400 ''Invalid email or password'', shop)"
proof (intro conjI)
  have "\<forall>u\<in>set (users shop). \<not> strict_eq (u_email u) (Str ''carol@x.com'')"
    by (simp add: shop_def alice_def bob_def)
  with login_error_responses[of "Str ''carol@x.com''" "Num (Fin 12345)" shop rt0]
  show "login rt0 (Str ''carol@x.com'') (Num (Fin 12345)) shop =
     Inr (fail 400 ''Invalid email or password'', shop)"
    by simp
next
  have f: "find (\<lambda>u. strict_eq (u_email u) (Str ''alice@x.com'')) (users shop) = Some alice"
    by (simp add: shop_def alice_def)
  have "bcrypt_compare rt0 (Num (Fin 12345)) (u_password alice) = None"
    by (simp add: rt0_def)
  with f login_error_responses[of "Str ''alice@x.com''" "Num (Fin 12345)" shop rt0]
  show "login rt0 (Str ''alice@x.com'') (Num (Fin 12345)) shop =
     Inr (fail 500 ''Server error'', shop)"
    by simp
next
  have f: "find (\<lambda>u. strict_eq (u_email u) (Str ''alice@x.com'')) (users shop) = Some alice"
    by (simp add: shop_def alice_def)
  have "bcrypt_compare rt0 (Str ''letmein'') (u_password alice) = Some False"
    by (simp add: rt0_def alice_def)
  with f login_error_responses[of "Str ''alice@x.com''" "Str ''letmein''" shop rt0]
  show "login rt0 (Str ''alice@x.com'') (Str ''letmein'') shop =
     Inr (fail 400 ''Invalid email or password'', shop)"
    by simp
qed

subsection \<open>C4: one user per email\<close>

text \<open>
  Claim C4 does not hold of the code. The handler looks for the email, then awaits
  \<open>bcrypt.hash\<close>, then pushes the user: a registration that arrives while another
  with the same email is hashing finds no user with the email. So when two
  registrations with one email have both passed the check in a state, and the
  hashing does not throw, both are answered 201 and the users array ends with two
  users of that email. Nor does a second registration that comes after the first
  always fail: \<open>u.email === email\<close> is false when \<open>email\<close> is an array or an
  object, whatever the users are, so two registrations with the email
  \<open>['a@x.com']\<close>, one after the other, are both answered 201.
\<close>

theorem register_same_email_twice:
  "(register_check username1 email password1 s = None \<and>
    register_check username2 email password2 s = None \<and>
    bcrypt_hash rt1 password1 = Some hash1 \<and> bcrypt_hash rt2 password2 = Some hash2 \<longrightarrow>
      (case register_commit rt1 username1 email password1 s of (resp1, s1) \<Rightarrow>
         case register_commit rt2 username2 email password2 s1 of (resp2, s2) \<Rightarrow>
           status resp1 = 201 \<and> status resp2 = 201 \<and>
           map u_email (users s2) = map u_email (users s) @ [email, email])) \<and>
   (truthy username1 \<and> truthy password1 \<and> truthy username2 \<and> truthy password2 \<and>
    bcrypt_hash rt1 password1 = Some hash1 \<and> bcrypt_hash rt2 password2 = Some hash2 \<longrightarrow>
      (case handle rt1 (Register username1 (Obj e) password1) s of
         Inl exn \<Rightarrow> False
       | Inr (resp1, s1) \<Rightarrow>
          (case handle rt2 (Register username2 (Obj e) password2) s1 of
             Inl exn \<Rightarrow> False
           | Inr (resp2, s2) \<Rightarrow>
               status resp1 = 201 \<and> status resp2 = 201 \<and>
               map u_email (users s2) = map u_email (users s) @ [Obj e, Obj e])))"
proof (intro conjI impI)
  assume "register_check username1 email password1 s = None \<and>
    register_check username2 email password2 s = None \<and>
    bcrypt_hash rt1 password1 = Some hash1 \<and> bcrypt_hash rt2 password2 = Some hash2"
  then show "case register_commit rt1 username1 email password1 s of (resp1, s1) \<Rightarrow>
         case register_commit rt2 username2 email password2 s1 of (resp2, s2) \<Rightarrow>
           status resp1 = 201 \<and> status resp2 = 201 \<and>
           map u_email (users s2) = map u_email (users s) @ [email, email]"
    by (simp add: register_commit_def Let_def ok_def)
next
  have "\<not> strict_eq x (Obj e)" for x
    by (induction x "Obj e" rule: strict_eq.induct) auto
  then have n: "find (\<lambda>u. strict_eq (u_email u) (Obj e)) us = None" for us
    by (induction us) auto
  assume "truthy username1 \<and> truthy password1 \<and> truthy username2 \<and> truthy password2 \<and>
    bcrypt_hash rt1 password1 = Some hash1 \<and> bcrypt_hash rt2 password2 = Some hash2"
  then show "case handle rt1 (Register username1 (Obj e) password1) s of
         Inl exn \<Rightarrow> False
       | Inr (resp1, s1) \<Rightarrow>
          (case handle rt2 (Register username2 (Obj e) password2) s1 of
             Inl exn \<Rightarrow> False
           | Inr (resp2, s2) \<Rightarrow>
               status resp1 = 201 \<and> status resp2 = 201 \<and>
               map u_email (users s2) = map u_email (users s) @ [Obj e, Obj e])"
    by (simp add: register_def register_check_def register_commit_def Let_def ok_def n)
qed

theorem register_same_email_twice_witness:
  "register_check (Str ''carol'') (Str ''carol@x.com'') (Str ''pw1'') shop = None \<and>
   register_check (Str ''carla'') (Str ''carol@x.com'') (Str ''pw2'') shop = None \<and>
   register_commit rt0 (Str ''carol'') (Str ''carol@x.com'') (Str ''pw1'') shop =
     (ok 201 (Some ''Registration successful! You can now login'')
        (PublicUser 3 (Str ''carol'') (Str ''carol@x.com'')), shop_carol) \<and>
   register_commit rt0 (Str ''carla'') (Str ''carol@x.com'') (Str ''pw2'') shop_carol =
     (ok 201 (Some ''Registration successful! You can now login'')
        (PublicUser 4 (Str ''carla'') (Str ''carol@x.com'')), shop_carol_carla) \<and>
   run [(rt0, RegisterHashed (Str ''carol'') (Str ''carol@x.com'') (Str ''pw1'')),
        (rt0, RegisterHashed (Str ''carla'') (Str ''carol@x.com'') (Str ''pw2''))] shop =
     shop_carol_carla \<and>
   map u_email (users shop_carol_carla) =
     [Str ''alice@x.com'', Str ''bob@x.com'', Str ''carol@x.com'', Str ''carol@x.com''] \<and>
   map u_email (users (run [(rt0, Register (Str ''carol'') (Obj ''a@x.com'') (Str ''pw1'')),
                            (rt0, Register (Str ''carla'') (Obj ''a@x.com'') (Str ''pw2''))] shop)) =
     [Str ''alice@x.com'', Str ''bob@x.com'', Obj ''a@x.com'', Obj ''a@x.com'']"
proof -
  have c: "register_check (Str ''carol'') (Str ''carol@x.com'') (Str ''pw1'') shop = None"
    "register_check (Str ''carla'') (Str ''carol@x.com'') (Str ''pw2'') shop = None"
    by (simp_all add: register_check_def shop_def alice_def bob_def)
  have h: "bcrypt_hash rt0 (Str ''pw1'') = Some ''$2a$10$pw1''"
    "bcrypt_hash rt0 (Str ''pw2'') = Some ''$2a$10$pw2''"
    by (simp_all add: rt0_def)
  have n: "Suc (Suc (Suc 0)) = 3" "Suc (Suc (Suc (Suc 0))) = 4"
    by simp_all
  have r: "register_commit rt0 (Str ''carol'') (Str ''carol@x.com'') (Str ''pw1'') shop =
     (ok 201 (Some ''Registration successful! You can now login'')
        (PublicUser 3 (Str ''carol'') (Str ''carol@x.com'')), shop_carol)"
    "register_commit rt0 (Str ''carla'') (Str ''carol@x.com'') (Str ''pw2'') shop_carol =
     (ok 201 (Some ''Registration successful! You can now login'')
        (PublicUser 4 (Str ''carla'') (Str ''carol@x.com'')), shop_carol_carla)"
    by (simp_all add: register_commit_def Let_def h shop_carol_def shop_carol_carla_def
          shop_def carol_def carla_def rt0_def n)
  have u: "map u_email (users shop) = [Str ''alice@x.com'', Str ''bob@x.com'']"
    by (simp add: shop_def alice_def bob_def)
  note th = register_same_email_twice[of "Str ''carol''" "Str ''carol@x.com''" "Str ''pw1''" shop
      "Str ''carla''" "Str ''pw2''" rt0 "''$2a$10$pw1''" rt0 "''$2a$10$pw2''" "''a@x.com''"]
  from th[THEN conjunct1] c h
  have "map u_email (users shop_carol_carla) =
      map u_email (users shop) @ [Str ''carol@x.com'', Str ''carol@x.com'']"
    by (simp add: r)
  moreover from th[THEN conjunct2] h
  have "map u_email (users (run [(rt0, Register (Str ''carol'') (Obj ''a@x.com'') (Str ''pw1'')),
                            (rt0, Register (Str ''carla'') (Obj ''a@x.com'') (Str ''pw2''))] shop)) =
     map u_email (users shop) @ [Obj ''a@x.com'', Obj ''a@x.com'']"
    by (auto simp add: after_def split: sum.splits prod.splits)
  moreover have "run [(rt0, RegisterHashed (Str ''carol'') (Str ''carol@x.com'') (Str ''pw1'')),
        (rt0, RegisterHashed (Str ''carla'') (Str ''carol@x.com'') (Str ''pw2''))] shop =
     shop_carol_carla"
    by (simp add: after_def r)
  ultimately show ?thesis using c r u by simp
qed

subsection \<open>C2: the cart total\<close>

text \<open>
  Claim C2 does not hold of the code. \<open>PUT /api/cart/:productId\<close> stores whatever
  \<open>quantity\<close> the body has, and \<open>undefined\<close> if it has none: after Alice's
  \<open>PUT /api/cart/1\<close> with the body \<open>{}\<close>, which is answered 200 \<open>Cart updated\<close>, her
  cart has one line, for the laptop at 1000, with no quantity. The sum of
  \<open>price * quantity\<close> is then NaN, and \<open>getCart\<close> answers with the total \<open>'NaN'\<close>,
  which is not a number with two decimals. Nor is the total of a cart whose
  quantities are all numbers always one: with the quantity \<open>1e22\<close> the sum is
  \<open>1e25\<close>, and \<open>toFixed(2)\<close> writes a number from \<open>1e21\<close> on as \<open>toString\<close> does,
  here \<open>'1e+25'\<close>.
\<close>

theorem getCart_total_not_two_decimals:
  "handle rt0 (UpdateCartItem 1 (Some 1) Undefined) shop =
     Inr (ok 200 (Some ''Cart updated'') (CartData [no_quantity]), shop_no_quantity) \<and>
   ci_price no_quantity = Fin 1000 \<and> ci_quantity no_quantity = Undefined \<and>
   handle rt0 (GetCart 1) shop_no_quantity =
     Inr (ok 200 None (CartView 1 ''NaN'' [no_quantity]), shop_no_quantity) \<and>
   rnd (10 ^ 22) = Fin (10 ^ 22) \<and>
   handle rt0 (UpdateCartItem 1 (Some 1) (Num (Fin (10 ^ 22)))) shop =
     Inr (ok 200 (Some ''Cart updated'') (CartData [many_laptops]), shop_many) \<and>
   ci_price many_laptops = Fin 1000 \<and> ci_quantity many_laptops = Num (Fin (10 ^ 22)) \<and>
   handle rt0 (GetCart 1) shop_many =
     Inr (ok 200 None (CartView 1 ''1e+25'' [many_laptops]), shop_many)"
proof -
  have "ci_price no_quantity = Fin 1000" "ci_quantity no_quantity = Undefined"
    "ci_price many_laptops = Fin 1000" "ci_quantity many_laptops = Num (Fin (10 ^ 22))"
    by (simp_all add: no_quantity_def many_laptops_def two_laptops_def)
  moreover have "getCart 1 shop_no_quantity =
     Inr (ok 200 None (CartView 1 ''NaN'' [no_quantity]), shop_no_quantity)"
    using shop_no_quantity_alice shop_no_quantity_view no_quantity_total
    by (simp add: getCart_def alice_def)
  moreover have "getCart 1 shop_many =
     Inr (ok 200 None (CartView 1 ''1e+25'' [many_laptops]), shop_many)"
    using shop_many_alice shop_many_view many_total
    by (simp add: getCart_def alice_def)
  ultimately show ?thesis using shop_put_no_quantity shop_put_many many_is_double by simp
qed

subsection \<open>C1: checkout\<close>

text \<open>
  Claim C1 does not hold of the code. \<open>PUT /api/cart/:productId\<close> stores whatever
  \<open>quantity\<close> the body has, and \<open>undefined\<close> if it has none. After Alice's
  \<open>PUT /api/cart/1\<close> with the body \<open>{}\<close> her cart has one line, for the laptop, with
  no quantity; her checkout is then answered 201 with an order whose total is NaN
  (\<open>parseFloat('NaN')\<close>), and \<open>product.stock -= undefined\<close> leaves the laptop
  with the stock NaN, where it was 5. The order is appended with the next id and
  the cart is emptied, as claimed.
\<close>

theorem createOrder_not_a_number:
  "handle rt0 (UpdateCartItem 1 (Some 1) Undefined) shop =
     Inr (ok 200 (Some ''Cart updated'') (CartData [no_quantity]), shop_no_quantity) \<and>
   products shop_no_quantity = [laptop, mouse] \<and> p_stock laptop = Fin 5 \<and>
   handle rt0 (CreateOrder 1) shop_no_quantity =
     Inr (ok 201 (Some (''Order placed successfully! '' @ party_emoji))
            (OrderData nan_order [no_quantity]), shop_nan) \<and>
   o_id nan_order = 2 \<and> o_total nan_order = NaN \<and>
   orders shop_nan = orders shop_no_quantity @ [nan_order] \<and>
   products shop_nan = [laptop\<lparr>p_stock := NaN\<rparr>, mouse] \<and>
   find_user shop_nan 1 = Some (alice\<lparr>u_cart := []\<rparr>)"
proof -
  have p: "products shop_no_quantity = [laptop, mouse]" "p_stock laptop = Fin 5"
    "o_id nan_order = 2" "o_total nan_order = NaN"
    "orders shop_nan = orders shop_no_quantity @ [nan_order]"
    "products shop_nan = [laptop\<lparr>p_stock := NaN\<rparr>, mouse]"
    "find_user shop_nan 1 = Some (alice\<lparr>u_cart := []\<rparr>)"
    by (simp_all add: shop_no_quantity_def shop_def laptop_def nan_order_def alices_order_def
          shop_nan_def find_user_def alice_def)
  have "foldl take_stock (products shop_no_quantity) (cart_view shop_no_quantity (u_cart alice)) =
      [laptop\<lparr>p_stock := NaN\<rparr>, mouse]"
    unfolding shop_no_quantity_view
    by (simp add: take_stock_def shop_no_quantity_def shop_def laptop_def mouse_def
          no_quantity_def two_laptops_def sub_def)
  moreover have "set_cart 1 [] (users shop_no_quantity) = [alice\<lparr>u_cart := []\<rparr>, bob]"
    by (simp add: set_cart_def shop_no_quantity_def shop_def alice_def)
  moreover have "u_cart alice = [0]" "u_id alice = 1" "u_username alice = Str ''alice''"
    "now rt0 = 1700000000"
    by (simp_all add: alice_def rt0_def)
  ultimately have "createOrder rt0 1 shop_no_quantity =
     Inr (ok 201 (Some (''Order placed successfully! '' @ party_emoji))
            (OrderData nan_order [no_quantity]), shop_nan)"
    using shop_no_quantity_alice shop_no_quantity_view no_quantity_total parseFloat_NaN
    by (simp add: createOrder_def Let_def nan_order_def alices_order_def shop_nan_def
          cart_view_def deref_def numeral_2_eq_2 shop_no_quantity_def shop_def)
  with p shop_put_no_quantity show ?thesis by simp
qed

subsection \<open>C8: an order never changes\<close>

text \<open>
  Claim C8, as stated, has the items of an order be a deep copy of the cart.
  \<open>items: [...user.cart]\<close> copies the array and not the lines in it: after Alice's
  checkout the items of her order are the very line her cart held (address 0), and
  the store has no new line.
\<close>

theorem order_items_shared_counterexample:
  "createOrder rt0 1 shop =
     Inr (ok 201 (Some (''Order placed successfully! '' @ party_emoji))
            (OrderData alices_order [two_laptops]), shop_checked_out) \<and>
   find_user shop 1 = Some alice \<and> u_cart alice = [0] \<and> o_items alices_order = [0] \<and>
   store shop_checked_out = store shop"
proof -
  have "u_cart alice = [0]" "o_items alices_order = [0]" "store shop_checked_out = store shop"
    by (simp_all add: alice_def alices_order_def shop_checked_out_def shop_def)
  with shop_checkout shop_alice show ?thesis by simp
qed

text \<open>
  Claim C8, amended. The items of an order are a shallow copy of the cart at
  checkout: a new array of the same lines, no line being copied. Checkout then gives
  the user a new, empty cart, so that the lines are held by the order alone, and
  every order is immutable thereafter. In a state where no cart line is shared,
  whatever requests are served: the orders made so far stay where they are in the
  orders array with all their fields (items, total, status), new orders are only
  appended, and the lines their items point to keep their values. The order that a
  checkout creates has status \<open>pending\<close> and, as items, the lines of the cart, with
  the values they had at checkout, and it keeps both under every later sequence of
  requests.
\<close>

theorem orders_immutable:
  assumes "unshared s"
  shows "(\<forall>reqs. \<exists>new. orders (run reqs s) = orders s @ new \<and>
            (\<forall>ord\<in>set (orders s).
                cart_view (run reqs s) (o_items ord) = cart_view s (o_items ord))) \<and>
         (\<forall>rt uid user. find_user s uid = Some user \<and> u_cart user \<noteq> [] \<longrightarrow>
            (\<exists>ord s1. createOrder rt uid s =
                 Inr (ok 201 (Some (''Order placed successfully! '' @ party_emoji))
                        (OrderData ord (cart_view s (u_cart user))), s1) \<and>
               o_items ord = u_cart user \<and> store s1 = store s \<and>
               find_user s1 uid = Some (user\<lparr>u_cart := []\<rparr>) \<and>
               o_status ord = ''pending'' \<and>
               (\<forall>reqs. \<exists>new. orders (run reqs s1) = orders s @ ord # new \<and>
                   cart_view (run reqs s1) (o_items ord) = cart_view s (u_cart user))))"
proof (intro conjI allI impI)
  fix reqs
  from orders_run[OF assms, of reqs] obtain new where
    n: "orders (run reqs s) = orders s @ new"
       "\<forall>a\<in>set (order_addrs s). deref (run reqs s) a = deref s a"
    by blast
  have "\<forall>ord\<in>set (orders s). cart_view (run reqs s) (o_items ord) = cart_view s (o_items ord)"
  proof
    fix ord assume "ord \<in> set (orders s)"
    with order_items_addrs n(2) have "\<forall>a\<in>set (o_items ord). deref (run reqs s) a = deref s a"
      by blast
    then show "cart_view (run reqs s) (o_items ord) = cart_view s (o_items ord)"
      by (rule cart_view_cong)
  qed
  with n(1) show "\<exists>new. orders (run reqs s) = orders s @ new \<and>
      (\<forall>ord\<in>set (orders s). cart_view (run reqs s) (o_items ord) = cart_view s (o_items ord))"
    by blast
next
  fix rt uid user
  assume "find_user s uid = Some user \<and> u_cart user \<noteq> []"
  then have u: "find_user s uid = Some user" "u_cart user \<noteq> []" by simp_all
  from createOrder_shares[OF u, of rt] obtain ord s1 where
    c: "createOrder rt uid s =
            Inr (ok 201 (Some (''Order placed successfully! '' @ party_emoji))
                   (OrderData ord (cart_view s (u_cart user))), s1)"
       "o_items ord = u_cart user" "o_status ord = ''pending''"
       "orders s1 = orders s @ [ord]" "store s1 = store s"
       "find_user s1 uid = Some (user\<lparr>u_cart := []\<rparr>)"
    by blast
  from c(1) have "s1 = after rt (CreateOrder uid) s" by (simp add: after_def)
  with unshared_after[OF assms] have u1: "unshared s1" by simp
  have v1: "cart_view s1 (o_items ord) = cart_view s (u_cart user)"
    by (simp add: c(2,5) cart_view_def deref_def)
  have l: "\<exists>new. orders (run reqs s1) = orders s @ ord # new \<and>
          cart_view (run reqs s1) (o_items ord) = cart_view s (u_cart user)" for reqs
  proof -
    from orders_run[OF u1, of reqs] obtain new where
      n: "orders (run reqs s1) = orders s1 @ new"
         "\<forall>a\<in>set (order_addrs s1). deref (run reqs s1) a = deref s1 a"
      by blast
    have "ord \<in> set (orders s1)" by (simp add: c(4))
    with order_items_addrs n(2) have "\<forall>a\<in>set (o_items ord). deref (run reqs s1) a = deref s1 a"
      by blast
    then have "cart_view (run reqs s1) (o_items ord) = cart_view s1 (o_items ord)"
      by (rule cart_view_cong)
    with v1 n(1) c(4) show ?thesis by simp
  qed
  then have l': "\<forall>reqs. \<exists>new. orders (run reqs s1) = orders s @ ord # new \<and>
          cart_view (run reqs s1) (o_items ord) = cart_view s (u_cart user)"
    by blast
  show "\<exists>ord s1. createOrder rt uid s =
                 Inr (ok 201 (Some (''Order placed successfully! '' @ party_emoji))
                        (OrderData ord (cart_view s (u_cart user))), s1) \<and>
               o_items ord = u_cart user \<and> store s1 = store s \<and>
               find_user s1 uid = Some (user\<lparr>u_cart := []\<rparr>) \<and>
               o_status ord = ''pending'' \<and>
               (\<forall>reqs. \<exists>new. orders (run reqs s1) = orders s @ ord # new \<and>
                   cart_view (run reqs s1) (o_items ord) = cart_view s (u_cart user))"
    by (rule exI[of _ ord], rule exI[of _ s1], intro conjI) (fact c(1) c(2) c(5) c(6) c(3) l')+
qed

theorem orders_immutable_witness:
  "cart_view (run [(rt0, CreateOrder 1), (rt0, AddToCart 2 (Num (Fin 2)) (Num (Fin 5))),
                   (rt0, UpdateCartItem 2 (Some 2) (Num (Fin 9)))] shop) (o_items bobs_order) =
     [two_mice] \<and>
   (\<exists>ord s1. createOrder rt0 1 shop =
        Inr (ok 201 (Some (''Order placed successfully! '' @ party_emoji))
               (OrderData ord [two_laptops]), s1) \<and>
      o_items ord = [0] \<and> store s1 = store shop \<and>
      find_user s1 1 = Some (alice\<lparr>u_cart := []\<rparr>) \<and>
      o_status ord = ''pending'' \<and>
      (\<exists>new. orders (run [(rt0, AddToCart 1 (Num (Fin 1)) (Num (Fin 3))),
                             (rt0, UpdateCartItem 1 (Some 1) (Num (Fin 1)))] s1) =
                [bobs_order, ord] @ new) \<and>
      cart_view (run [(rt0, AddToCart 1 (Num (Fin 1)) (Num (Fin 3))),
                      (rt0, UpdateCartItem 1 (Some 1) (Num (Fin 1)))] s1) (o_items ord) =
        [two_laptops])"
proof
  note th = orders_immutable[OF shop_unshared]
  have "bobs_order \<in> set (orders shop)" by (simp add: shop_def)
  with th have "cart_view (run [(rt0, CreateOrder 1), (rt0, AddToCart 2 (Num (Fin 2)) (Num (Fin 5))),
                   (rt0, UpdateCartItem 2 (Some 2) (Num (Fin 9)))] shop) (o_items bobs_order) =
     cart_view shop (o_items bobs_order)"
    by blast
  then show "cart_view (run [(rt0, CreateOrder 1), (rt0, AddToCart 2 (Num (Fin 2)) (Num (Fin 5))),
                   (rt0, UpdateCartItem 2 (Some 2) (Num (Fin 9)))] shop) (o_items bobs_order) =
     [two_mice]"
    by (simp add: cart_view_def deref_def shop_def bobs_order_def)
next
  note th = orders_immutable[OF shop_unshared]
  have v: "orders shop = [bobs_order]" "u_cart alice = [0]" "cart_view shop [0] = [two_laptops]"
    by (simp_all add: shop_def alice_def cart_view_def deref_def)
  have "u_cart alice \<noteq> []" by (simp add: alice_def)
  with shop_alice have "find_user shop 1 = Some alice \<and> u_cart alice \<noteq> []" by blast
  with th obtain ord s1 where
    c: "createOrder rt0 1 shop =
          Inr (ok 201 (Some (''Order placed successfully! '' @ party_emoji))
                 (OrderData ord (cart_view shop (u_cart alice))), s1)"
       "o_items ord = u_cart alice" "store s1 = store shop"
       "find_user s1 1 = Some (alice\<lparr>u_cart := []\<rparr>)"
       "o_status ord = ''pending''"
       "\<forall>reqs. \<exists>new. orders (run reqs s1) = orders shop @ ord # new \<and>
           cart_view (run reqs s1) (o_items ord) = cart_view shop (u_cart alice)"
    by blast
  from c(6) obtain new where
    "orders (run [(rt0, AddToCart 1 (Num (Fin 1)) (Num (Fin 3))),
                  (rt0, UpdateCartItem 1 (Some 1) (Num (Fin 1)))] s1) = orders shop @ ord # new"
    "cart_view (run [(rt0, AddToCart 1 (Num (Fin 1)) (Num (Fin 3))),
                      (rt0, UpdateCartItem 1 (Some 1) (Num (Fin 1)))] s1) (o_items ord) =
       cart_view shop (u_cart alice)"
    by blast
  with c(1,2,3,4,5) show "\<exists>ord s1. createOrder rt0 1 shop =
        Inr (ok 201 (Some (''Order placed successfully! '' @ party_emoji))
               (OrderData ord [two_laptops]), s1) \<and>
      o_items ord = [0] \<and> store s1 = store shop \<and>
      find_user s1 1 = Some (alice\<lparr>u_cart := []\<rparr>) \<and>
      o_status ord = ''pending'' \<and>
      (\<exists>new. orders (run [(rt0, AddToCart 1 (Num (Fin 1)) (Num (Fin 3))),
                             (rt0, UpdateCartItem 1 (Some 1) (Num (Fin 1)))] s1) =
                [bobs_order, ord] @ new) \<and>
      cart_view (run [(rt0, AddToCart 1 (Num (Fin 1)) (Num (Fin 3))),
                      (rt0, UpdateCartItem 1 (Some 1) (Num (Fin 1)))] s1) (o_items ord) =
        [two_laptops]"
    unfolding v by (intro exI[of _ ord] exI[of _ s1]) simp
qed

subsection \<open>C7: changing the quantity of a cart line\<close>

text \<open>
  Claim C7. For a user the token names, in a state where no cart line is shared:
  \<open>updateCartItem\<close> answers 404 \<open>Item not in cart\<close> and writes nothing if no line of
  the cart has the given product id. If one has and the quantity is 0, the lines with
  that product id leave the cart and the others stay, in order. If one has and the
  quantity is anything else (another number, a string, or left out, which is
  \<open>undefined\<close>), the first line with that product id gets the given quantity and
  nothing else in the cart changes. The products are not read or written: the
  quantity is not compared with the stock.
\<close>

theorem updateCartItem_spec:
  assumes "find_user s uid = Some user" "unshared s"
  shows
   "((\<forall>line\<in>set (cart_view s (u_cart user)). \<not> eq_param (ci_productId line) productId) \<longrightarrow>
       updateCartItem uid productId quantity s = Inr (fail 404 ''Item not in cart'', s)) \<and>
    ((\<exists>line\<in>set (cart_view s (u_cart user)). eq_param (ci_productId line) productId) \<and>
       quantity = Num (Fin 0) \<longrightarrow>
       (\<exists>s' user'. updateCartItem uid productId quantity s =
            Inr (ok 200 (Some ''Item removed from cart'')
                   (CartData (filter (\<lambda>line. \<not> eq_param (ci_productId line) productId)
                                (cart_view s (u_cart user)))), s') \<and>
          find_user s' uid = Some user' \<and>
          cart_view s' (u_cart user') =
            filter (\<lambda>line. \<not> eq_param (ci_productId line) productId) (cart_view s (u_cart user)) \<and>
          products s' = products s)) \<and>
    ((\<exists>line\<in>set (cart_view s (u_cart user)). eq_param (ci_productId line) productId) \<and>
       quantity \<noteq> Num (Fin 0) \<longrightarrow>
       (\<exists>s'. updateCartItem uid productId quantity s =
            Inr (ok 200 (Some ''Cart updated'')
                   (CartData (update_first (\<lambda>line. eq_param (ci_productId line) productId)
                                (\<lambda>line. line\<lparr>ci_quantity := quantity\<rparr>)
                                (cart_view s (u_cart user)))), s') \<and>
          find_user s' uid = Some user \<and>
          cart_view s' (u_cart user) =
            update_first (\<lambda>line. eq_param (ci_productId line) productId)
              (\<lambda>line. line\<lparr>ci_quantity := quantity\<rparr>) (cart_view s (u_cart user)) \<and>
          products s' = products s))"
proof (intro conjI impI)
  let ?hit = "\<lambda>line. eq_param (ci_productId line) productId"
  let ?view = "cart_view s (u_cart user)"
  assume "\<forall>line\<in>set ?view. \<not> ?hit line"
  then have "find ?hit ?view = None" by (simp add: find_None_iff2)
  then have "find (\<lambda>a. ?hit (deref s a)) (u_cart user) = None" by (simp add: find_view)
  with assms(1) show "updateCartItem uid productId quantity s = Inr (fail 404 ''Item not in cart'', s)"
    by (simp add: updateCartItem_def)
next
  let ?hit = "\<lambda>line. eq_param (ci_productId line) productId"
  let ?view = "cart_view s (u_cart user)"
  let ?cart = "filter (\<lambda>a. \<not> ?hit (deref s a)) (u_cart user)"
  let ?s' = "s\<lparr>users := set_cart uid ?cart (users s)\<rparr>"
  assume a: "(\<exists>line\<in>set ?view. ?hit line) \<and> quantity = Num (Fin 0)"
  then have "find ?hit ?view \<noteq> None" by (simp add: find_None_iff2)
  then obtain a where f: "find (\<lambda>a. ?hit (deref s a)) (u_cart user) = Some a"
    by (auto simp: find_view)
  have v: "cart_view ?s' ?cart = filter (\<lambda>line. \<not> ?hit line) ?view"
    by (simp add: filter_view)
  from assms(1) f a v have r: "updateCartItem uid productId quantity s =
      Inr (ok 200 (Some ''Item removed from cart'')
             (CartData (filter (\<lambda>line. \<not> ?hit line) ?view)), ?s')"
    by (simp add: updateCartItem_def Let_def)
  have u: "find_user ?s' uid = Some (user\<lparr>u_cart := ?cart\<rparr>)"
    by (rule find_user_set_cart'[OF assms(1)])
  have v': "cart_view ?s' (u_cart (user\<lparr>u_cart := ?cart\<rparr>)) = filter (\<lambda>line. \<not> ?hit line) ?view"
    using v by simp
  have p: "products ?s' = products s" by simp
  show "\<exists>s' user'. updateCartItem uid productId quantity s =
            Inr (ok 200 (Some ''Item removed from cart'')
                   (CartData (filter (\<lambda>line. \<not> ?hit line) ?view)), s') \<and>
          find_user s' uid = Some user' \<and>
          cart_view s' (u_cart user') = filter (\<lambda>line. \<not> ?hit line) ?view \<and>
          products s' = products s"
    by (rule exI[of _ ?s'], rule exI[of _ "user\<lparr>u_cart := ?cart\<rparr>"], intro conjI)
       (fact r u v' p)+
next
  let ?hit = "\<lambda>line. eq_param (ci_productId line) productId"
  let ?set = "\<lambda>line. line\<lparr>ci_quantity := quantity\<rparr>"
  let ?view = "cart_view s (u_cart user)"
  assume a: "(\<exists>line\<in>set ?view. ?hit line) \<and> quantity \<noteq> Num (Fin 0)"
  then have "find ?hit ?view \<noteq> None" by (simp add: find_None_iff2)
  then obtain a where f: "find (\<lambda>a. ?hit (deref s a)) (u_cart user) = Some a"
    by (auto simp: find_view)
  let ?s' = "s\<lparr>store := (store s)[a := ?set (deref s a)]\<rparr>"
  from user_cart_ok[OF assms(2,1)] f
  have v: "cart_view ?s' (u_cart user) = update_first ?hit ?set ?view"
    by (rule view_write)
  from assms(1) f a v have r: "updateCartItem uid productId quantity s =
      Inr (ok 200 (Some ''Cart updated'') (CartData (update_first ?hit ?set ?view)), ?s')"
    by (simp add: updateCartItem_def Let_def)
  have u: "find_user ?s' uid = Some user" using assms(1) by simp
  have p: "products ?s' = products s" by simp
  show "\<exists>s'. updateCartItem uid productId quantity s =
            Inr (ok 200 (Some ''Cart updated'') (CartData (update_first ?hit ?set ?view)), s') \<and>
          find_user s' uid = Some user \<and>
          cart_view s' (u_cart user) = update_first ?hit ?set ?view \<and>
          products s' = products s"
    by (rule exI[of _ ?s'], intro conjI) (fact r u v p)+
qed

theorem updateCartItem_spec_witness:
  "updateCartItem 1 (Some 2) (Num (Fin 3)) shop = Inr (fail 404 ''Item not in cart'', shop) \<and>
   (\<exists>s' user'. updateCartItem 1 (Some 1) (Num (Fin 0)) shop =
        Inr (ok 200 (Some ''Item removed from cart'') (CartData []), s') \<and>
      find_user s' 1 = Some user' \<and> cart_view s' (u_cart user') = [] \<and>
      products s' = products shop) \<and>
   (\<exists>s'. updateCartItem 1 (Some 1) (Num (Fin 50)) shop =
        Inr (ok 200 (Some ''Cart updated'')
               (CartData [two_laptops\<lparr>ci_quantity := Num (Fin 50)\<rparr>]), s') \<and>
      find_user s' 1 = Some alice \<and>
      cart_view s' (u_cart alice) = [two_laptops\<lparr>ci_quantity := Num (Fin 50)\<rparr>] \<and>
      products s' = products shop) \<and>
   (\<exists>s'. updateCartItem 1 (Some 1) Undefined shop =
        Inr (ok 200 (Some ''Cart updated'') (CartData [no_quantity]), s') \<and>
      cart_view s' (u_cart alice) = [no_quantity])"
proof (intro conjI)
  from updateCartItem_spec[OF shop_alice shop_unshared, of "Some 2" "Num (Fin 3)"]
  show "updateCartItem 1 (Some 2) (Num (Fin 3)) shop = Inr (fail 404 ''Item not in cart'', shop)"
    by (simp add: shop_alice_view two_laptops_def)
next
  from updateCartItem_spec[OF shop_alice shop_unshared, of "Some 1" "Num (Fin 0)"]
  show "\<exists>s' user'. updateCartItem 1 (Some 1) (Num (Fin 0)) shop =
        Inr (ok 200 (Some ''Item removed from cart'') (CartData []), s') \<and>
      find_user s' 1 = Some user' \<and> cart_view s' (u_cart user') = [] \<and>
      products s' = products shop"
    by (simp add: shop_alice_view two_laptops_def)
next
  from updateCartItem_spec[OF shop_alice shop_unshared, of "Some 1" "Num (Fin 50)"]
  show "\<exists>s'. updateCartItem 1 (Some 1) (Num (Fin 50)) shop =
        Inr (ok 200 (Some ''Cart updated'')
               (CartData [two_laptops\<lparr>ci_quantity := Num (Fin 50)\<rparr>]), s') \<and>
      find_user s' 1 = Some alice \<and>
      cart_view s' (u_cart alice) = [two_laptops\<lparr>ci_quantity := Num (Fin 50)\<rparr>] \<and>
      products s' = products shop"
    by (simp add: shop_alice_view two_laptops_def)
next
  from updateCartItem_spec[OF shop_alice shop_unshared, of "Some 1" Undefined]
  show "\<exists>s'. updateCartItem 1 (Some 1) Undefined shop =
        Inr (ok 200 (Some ''Cart updated'') (CartData [no_quantity]), s') \<and>
      cart_view s' (u_cart alice) = [no_quantity]"
    by (simp add: shop_alice_view two_laptops_def no_quantity_def) blast
qed

subsection \<open>C3: adding to the cart\<close>




subsection \<open>C10: what a cart request leaves alone\<close>

text \<open>
  Claim C10. In a state where no cart line is shared, a cart request of a user
  (\<open>getCart\<close>, \<open>addToCart\<close>, \<open>updateCartItem\<close>, \<open>removeCartItem\<close>, \<open>clearCart\<close>)
  leaves the products as they were, stock included, and the orders with the values of
  their items. The users array keeps its length, every user keeps every field but
  the cart, and every user with another id keeps the cart too, and the values of its
  lines.
\<close>

theorem cart_requests_frame:
  assumes "unshared s" "cart_request uid r"
  shows "products (after rt r s) = products s \<and> orders (after rt r s) = orders s \<and>
         (\<forall>ord\<in>set (orders s).
             cart_view (after rt r s) (o_items ord) = cart_view s (o_items ord)) \<and>
         length (users (after rt r s)) = length (users s) \<and>
         (\<forall>i<length (users s).
             users (after rt r s) ! i =
               (users s ! i)\<lparr>u_cart := u_cart (users (after rt r s) ! i)\<rparr> \<and>
             (u_id (users s ! i) \<noteq> uid \<longrightarrow>
                users (after rt r s) ! i = users s ! i \<and>
                cart_view (after rt r s) (u_cart (users s ! i)) =
                  cart_view s (u_cart (users s ! i))))"
proof (cases rule: after_cases[of rt r s])
  case 1
  then show ?thesis by simp
next
  case (2 resp)
  from cart_request_effect[OF assms(2) 2] have "after rt r s = s \<or> cart_write uid s (after rt r s)" .
  from cart_write_frame[OF assms(1) this] show ?thesis .
qed

theorem cart_requests_frame_witness:
  "products (after rt0 (AddToCart 1 (Num (Fin 2)) (Num (Fin 3))) shop) = [laptop, mouse] \<and>
   p_stock mouse = Fin 10 \<and>
   orders (after rt0 (AddToCart 1 (Num (Fin 2)) (Num (Fin 3))) shop) = [bobs_order] \<and>
   cart_view (after rt0 (AddToCart 1 (Num (Fin 2)) (Num (Fin 3))) shop) (o_items bobs_order) =
     [two_mice] \<and>
   users (after rt0 (AddToCart 1 (Num (Fin 2)) (Num (Fin 3))) shop) ! 1 = bob \<and>
   u_email (users (after rt0 (AddToCart 1 (Num (Fin 2)) (Num (Fin 3))) shop) ! 0) = Str ''alice@x.com''"
proof -
  let ?s' = "after rt0 (AddToCart 1 (Num (Fin 2)) (Num (Fin 3))) shop"
  have c: "cart_request 1 (AddToCart 1 (Num (Fin 2)) (Num (Fin 3)))" by simp
  note f = cart_requests_frame[OF shop_unshared c, of rt0]
  have s: "products shop = [laptop, mouse]" "orders shop = [bobs_order]"
    "length (users shop) = 2" "users shop ! 1 = bob" "users shop ! 0 = alice"
    "u_id bob \<noteq> 1" "p_stock mouse = Fin 10"
    "cart_view shop (o_items bobs_order) = [two_mice]"
    by (simp_all add: shop_def bob_def mouse_def bobs_order_def cart_view_def deref_def)
  from f s(1,2) have p: "products ?s' = [laptop, mouse]" "orders ?s' = [bobs_order]"
    by simp_all
  from f s(2,8) have v: "cart_view ?s' (o_items bobs_order) =
       [two_mice]"
    by simp
  from f have i: "\<forall>i<length (users shop).
             users ?s' ! i = (users shop ! i)\<lparr>u_cart := u_cart (users ?s' ! i)\<rparr> \<and>
             (u_id (users shop ! i) \<noteq> 1 \<longrightarrow> users ?s' ! i = users shop ! i \<and>
                cart_view ?s' (u_cart (users shop ! i)) = cart_view shop (u_cart (users shop ! i)))"
    by blast
  from i[rule_format, of 1] s(3,4,6) have b: "users ?s' ! 1 = bob" by simp
  from i[rule_format, of 0] s(3,5) have "users ?s' ! 0 = alice\<lparr>u_cart := u_cart (users ?s' ! 0)\<rparr>"
    by simp
  then have "u_email (users ?s' ! 0) = u_email (alice\<lparr>u_cart := u_cart (users ?s' ! 0)\<rparr>)"
    by simp
  then have a: "u_email (users ?s' ! 0) = Str ''alice@x.com''" by (simp add: alice_def)
  from p v b a s(7) show ?thesis by simp
qed

end
